theory Spec2Isabelle
  imports Complex_Main "HOL-Library.List_Lexorder" "HOL-Library.Char_ord"
begin

section \<open>Python floats\<close>

text \<open>
  A Python \<^verbatim>\<open>float\<close> is an IEEE 754 binary64 number. It is modelled by the rational
  it denotes; every arithmetic operation computes the exact rational result and rounds
  it to the nearest number with a 53-bit significand, ties to the even significand.
  The exponent range is left unbounded: overflow to infinity, subnormal numbers and
  NaN are outside the model, and so is the sign of zero.
\<close>

type_synonym pyfloat = rat

fun bitlen :: "nat \<Rightarrow> nat" where
  "bitlen n = (if n = 0 then 0 else Suc (bitlen (n div 2)))"

declare bitlen.simps [simp del]

definition pow2 :: "int \<Rightarrow> rat" where
  "pow2 k = (if 0 \<le> k then 2 ^ nat k else 1 / 2 ^ nat (- k))"

text \<open>The binary exponent of a positive rational: \<open>pow2 (ilog2 q) \<le> q < pow2 (ilog2 q + 1)\<close>.\<close>

definition ilog2 :: "rat \<Rightarrow> int" where
  "ilog2 q = (if 1 \<le> q then int (bitlen (nat \<lfloor>q\<rfloor>)) - 1
              else - int (bitlen (nat (\<lceil>1 / q\<rceil> - 1))))"

definition round_half_even :: "rat \<Rightarrow> int" where
  "round_half_even x =
     (let f = \<lfloor>x\<rfloor>; d = x - of_int f
      in if d < 1 / 2 then f else if 1 / 2 < d then f + 1
         else if even f then f else f + 1)"

definition rnd :: "rat \<Rightarrow> pyfloat" where
  "rnd q = (if q = 0 then 0
            else let a = \<bar>q\<bar>; u = pow2 (ilog2 a - 52);
                     r = of_int (round_half_even (a / u)) * u
                 in if q < 0 then - r else r)"

text \<open>Evaluation of \<open>rnd\<close> at numerals.\<close>

lemma floor_rat_numeral: "\<lfloor>numeral a / numeral b :: rat\<rfloor> = numeral a div numeral b"
  using floor_divide_of_int_eq [of "numeral a" "numeral b", where ?'a = rat] by simp

lemma ceiling_rat_numeral: "\<lceil>numeral a / numeral b :: rat\<rceil> = - (- numeral a div numeral b)"
proof -
  have "\<lceil>numeral a / numeral b :: rat\<rceil> = - \<lfloor>of_int (- numeral a) / of_int (numeral b) :: rat\<rfloor>"
    by (simp add: ceiling_def)
  also have "\<dots> = - (- numeral a div numeral b)"
    by (simp only: floor_divide_of_int_eq)
  finally show ?thesis .
qed

lemma bitlen_numeral:
  "bitlen 0 = 0"
  "bitlen (Suc 0) = Suc 0"
  "bitlen (numeral k) = Suc (bitlen (numeral k div 2))"
  by (subst bitlen.simps, simp)+

lemmas rnd_eval = rnd_def Let_def ilog2_def pow2_def round_half_even_def bitlen_numeral
  floor_rat_numeral ceiling_rat_numeral

subsection \<open>The rounding is to nearest, and keeps the sign\<close>

lemma pow2_pos: "0 < pow2 k"
  by (simp add: pow2_def)

lemma round_half_even_nonneg: "0 \<le> x \<Longrightarrow> 0 \<le> round_half_even x"
  by (simp add: round_half_even_def Let_def)

lemma rnd_nonneg: "0 \<le> q \<Longrightarrow> 0 \<le> rnd q"
  using pow2_pos [of "ilog2 \<bar>q\<bar> - 52"]
  by (simp add: rnd_def Let_def round_half_even_nonneg)

lemma bitlen_upper: "n < 2 ^ bitlen n"
proof (induction n rule: bitlen.induct)
  case (1 n)
  show ?case
  proof (cases "n = 0")
    case True
    then show ?thesis by (subst bitlen.simps) simp
  next
    case False
    then have "n div 2 < 2 ^ bitlen (n div 2)" using 1 by simp
    then have "n < 2 * 2 ^ bitlen (n div 2)" by linarith
    then show ?thesis using False by (subst bitlen.simps) simp
  qed
qed

lemma bitlen_lower: "0 < n \<Longrightarrow> 2 ^ (bitlen n - 1) \<le> n"
proof (induction n rule: bitlen.induct)
  case (1 n)
  show ?case
  proof (cases "n div 2 = 0")
    case True
    then have "n = 1" using 1(2) by linarith
    then show ?thesis by (simp add: bitlen_numeral)
  next
    case False
    then have ih: "2 ^ (bitlen (n div 2) - 1) \<le> n div 2" using 1 by simp
    have pos: "0 < bitlen (n div 2)" using False by (subst bitlen.simps) simp
    have "bitlen n = Suc (bitlen (n div 2))" using 1(2) by (subst bitlen.simps) simp
    then have "2 ^ (bitlen n - 1) = 2 * 2 ^ (bitlen (n div 2) - 1)"
      using pos by (cases "bitlen (n div 2)") simp_all
    also have "\<dots> \<le> 2 * (n div 2)" using ih by simp
    also have "\<dots> \<le> n" by simp
    finally show ?thesis .
  qed
qed

lemma pow2_ilog2_le:
  assumes "0 < a"
  shows "pow2 (ilog2 a) \<le> a"
proof (cases "1 \<le> a")
  case True
  let ?n = "nat \<lfloor>a\<rfloor>"
  have n: "0 < ?n" using True by simp
  have b: "0 < bitlen ?n" using n by (subst bitlen.simps) simp
  have "ilog2 a = int (bitlen ?n) - 1" using True by (simp add: ilog2_def)
  moreover have "nat (int (bitlen ?n) - 1) = bitlen ?n - 1" by linarith
  moreover have "0 \<le> int (bitlen ?n) - 1" using b by linarith
  ultimately have "pow2 (ilog2 a) = 2 ^ (bitlen ?n - 1)"
    by (simp only: pow2_def if_True)
  also have "(2::rat) ^ (bitlen ?n - 1) = of_nat (2 ^ (bitlen ?n - 1))" by simp
  also have "\<dots> \<le> of_nat ?n"
    using bitlen_lower [OF n] by (rule of_nat_mono)
  also have "\<dots> \<le> a" using True by (simp add: of_nat_floor)
  finally show ?thesis .
next
  case False
  let ?m = "nat (\<lceil>1 / a\<rceil> - 1)"
  let ?k = "bitlen ?m"
  have up: "1 / a \<le> of_int \<lceil>1 / a\<rceil>" by (rule le_of_int_ceiling)
  have "1 < 1 / a" using False assms by simp
  with up have "1 < (of_int \<lceil>1 / a\<rceil> :: rat)" by linarith
  then have c: "0 \<le> \<lceil>1 / a\<rceil> - 1" by linarith
  then have "(of_nat ?m :: rat) = of_int (\<lceil>1 / a\<rceil> - 1)"
    by (rule of_nat_nat)
  then have e: "of_int \<lceil>1 / a\<rceil> = (of_nat (Suc ?m) :: rat)" by simp
  have "Suc ?m \<le> 2 ^ ?k" using bitlen_upper [of ?m] by linarith
  then have "(of_nat (Suc ?m) :: rat) \<le> of_nat (2 ^ ?k)" by (rule of_nat_mono)
  then have "1 / a \<le> 2 ^ ?k" using up e by simp
  then have "1 \<le> 2 ^ ?k * a" using assms by (simp add: pos_divide_le_eq)
  then have le: "1 / 2 ^ ?k \<le> a" by (simp add: pos_divide_le_eq mult.commute)
  have i: "ilog2 a = - int ?k" using False by (simp add: ilog2_def)
  have "pow2 (ilog2 a) = 1 / 2 ^ ?k"
  proof (cases "?k = 0")
    case True
    then show ?thesis by (simp add: i pow2_def)
  next
    case False
    then show ?thesis by (simp add: i pow2_def)
  qed
  then show ?thesis using le by simp
qed

lemma pow2_power_int: "pow2 k = power_int 2 k"
  by (simp add: pow2_def power_int_def field_simps)

lemma pow2_shift: "pow2 (k - 52) * 2 ^ 52 = pow2 k"
proof -
  have "pow2 k = power_int 2 ((k - 52) + 52)" by (simp add: pow2_power_int)
  also have "\<dots> = power_int 2 (k - 52) * power_int (2::rat) 52"
    by (subst power_int_add) simp_all
  finally show ?thesis by (simp add: pow2_power_int)
qed

lemma scaled_ge:
  assumes "0 < a"
  shows "2 ^ 52 \<le> a / pow2 (ilog2 a - 52)"
proof -
  have u: "0 < pow2 (ilog2 a - 52)" by (rule pow2_pos)
  have "pow2 (ilog2 a - 52) * 2 ^ 52 \<le> a"
    using pow2_ilog2_le [OF assms] by (simp only: pow2_shift)
  then show ?thesis using u by (simp add: pos_le_divide_eq mult.commute)
qed

lemma round_half_even_ge:
  assumes "of_int n \<le> x"
  shows "n \<le> round_half_even x"
proof -
  have "n \<le> \<lfloor>x\<rfloor>" using assms by (simp add: le_floor_iff)
  then show ?thesis
    unfolding round_half_even_def Let_def by (simp split: if_split)
qed

lemma rnd_pos:
  assumes "0 < q"
  shows "0 < rnd q"
proof -
  have "(2::int) ^ 52 \<le> round_half_even (q / pow2 (ilog2 q - 52))"
    using scaled_ge [OF assms] by (intro round_half_even_ge) simp
  moreover have "(0::int) < 2 ^ 52" by simp
  ultimately have "0 < round_half_even (q / pow2 (ilog2 q - 52))"
    by (rule less_le_trans [rotated])
  then show ?thesis
    using assms pow2_pos [of "ilog2 q - 52"] by (simp add: rnd_def Let_def)
qed

lemma pow2_ilog2_gt:
  assumes "0 < a"
  shows "a < pow2 (ilog2 a + 1)"
proof (cases "1 \<le> a")
  case True
  let ?n = "nat \<lfloor>a\<rfloor>"
  have "ilog2 a + 1 = int (bitlen ?n)" using True by (simp add: ilog2_def)
  then have p: "pow2 (ilog2 a + 1) = 2 ^ bitlen ?n" by (simp add: pow2_def)
  have "Suc ?n \<le> 2 ^ bitlen ?n" using bitlen_upper [of ?n] by linarith
  then have "(of_nat (Suc ?n) :: rat) \<le> of_nat (2 ^ bitlen ?n)" by (rule of_nat_mono)
  moreover have "a < of_nat (Suc ?n)"
  proof -
    have "a < of_int \<lfloor>a\<rfloor> + 1" by linarith
    moreover have "(of_nat ?n :: rat) = of_int \<lfloor>a\<rfloor>"
      using True by (intro of_nat_nat) simp
    ultimately show ?thesis by simp
  qed
  ultimately show ?thesis using p by simp
next
  case False
  let ?m = "nat (\<lceil>1 / a\<rceil> - 1)"
  let ?k = "bitlen ?m"
  have up: "1 / a \<le> of_int \<lceil>1 / a\<rceil>" by (rule le_of_int_ceiling)
  have "1 < 1 / a" using False assms by simp
  with up have "1 < (of_int \<lceil>1 / a\<rceil> :: rat)" by linarith
  then have c: "1 \<le> \<lceil>1 / a\<rceil> - 1" by linarith
  then have m: "0 < ?m" by linarith
  have e: "(of_nat ?m :: rat) = of_int (\<lceil>1 / a\<rceil> - 1)"
    using c by (intro of_nat_nat) linarith
  have "of_int \<lceil>1 / a\<rceil> - 1 < 1 / a" by linarith
  then have lt: "of_nat ?m < 1 / a" using e by simp
  have k: "0 < ?k" using m by (subst bitlen.simps) simp
  have "(of_nat (2 ^ (?k - 1)) :: rat) \<le> of_nat ?m"
    using bitlen_lower [OF m] by (rule of_nat_mono)
  then have "(of_nat (2 ^ (?k - 1)) :: rat) < 1 / a" using lt by (rule le_less_trans)
  moreover have "(of_nat (2 ^ (?k - 1)) :: rat) = 2 ^ (?k - 1)" by simp
  ultimately have "2 ^ (?k - 1) < 1 / a" by (simp only:)
  then have "2 ^ (?k - 1) * a < 1" using assms by (simp add: pos_less_divide_eq)
  then have a: "a < 1 / 2 ^ (?k - 1)" by (simp add: pos_less_divide_eq mult.commute)
  have "ilog2 a + 1 = - int (?k - 1)" using False k by (simp add: ilog2_def)
  then have "pow2 (ilog2 a + 1) = 1 / 2 ^ (?k - 1)"
    by (cases "?k - 1 = 0") (simp_all add: pow2_def)
  then show ?thesis using a by simp
qed

lemma pow2_shift_up: "pow2 (k - 52) * 2 ^ 53 = pow2 (k + 1)"
proof -
  have "k + 1 = (k - 52) + 53" by simp
  then have "pow2 (k + 1) = power_int 2 ((k - 52) + 53)" by (simp only: pow2_power_int)
  also have "\<dots> = power_int 2 (k - 52) * power_int (2::rat) 53"
    by (subst power_int_add) simp_all
  finally show ?thesis by (simp add: pow2_power_int)
qed

lemma scaled_lt:
  assumes "0 < a"
  shows "a / pow2 (ilog2 a - 52) < 2 ^ 53"
proof -
  have u: "0 < pow2 (ilog2 a - 52)" by (rule pow2_pos)
  have "a < pow2 (ilog2 a - 52) * 2 ^ 53"
    using pow2_ilog2_gt [OF assms] by (simp only: pow2_shift_up)
  then show ?thesis using u by (simp add: pos_divide_less_eq mult.commute)
qed

lemma round_half_even_le:
  assumes "x \<le> of_int n"
  shows "round_half_even x \<le> n"
proof -
  have f: "\<lfloor>x\<rfloor> \<le> n" using assms by (simp add: floor_le_iff)
  show ?thesis
  proof (cases "x = of_int \<lfloor>x\<rfloor>")
    case True
    then have "round_half_even x = \<lfloor>x\<rfloor>" by (simp add: round_half_even_def Let_def)
    then show ?thesis using f by simp
  next
    case False
    then have "of_int \<lfloor>x\<rfloor> \<noteq> x" by (rule not_sym)
    moreover have "of_int \<lfloor>x\<rfloor> \<le> x" by (rule of_int_floor_le)
    ultimately have "of_int \<lfloor>x\<rfloor> < x" by (rule order.not_eq_order_implies_strict)
    then have "of_int \<lfloor>x\<rfloor> < (of_int n :: rat)" using assms by linarith
    then have "\<lfloor>x\<rfloor> + 1 \<le> n" by simp
    moreover have "round_half_even x \<le> \<lfloor>x\<rfloor> + 1"
      by (simp add: round_half_even_def Let_def)
    ultimately show ?thesis by linarith
  qed
qed

lemma round_half_even_error: "\<bar>of_int (round_half_even x) - x\<bar> \<le> 1 / 2"
proof -
  define f where "f = \<lfloor>x\<rfloor>"
  have a: "of_int f \<le> x" and b: "x < of_int f + 1" unfolding f_def by linarith+
  consider "x - of_int f < 1 / 2" | "1 / 2 < x - of_int f" | "x - of_int f = 1 / 2"
    by linarith
  then show ?thesis
  proof cases
    case 1
    then have "round_half_even x = f" by (simp add: round_half_even_def Let_def f_def)
    then show ?thesis using a 1 by simp
  next
    case 2
    then have "round_half_even x = f + 1" by (simp add: round_half_even_def Let_def f_def)
    then show ?thesis using b 2 by simp
  next
    case 3
    then have "round_half_even x = f \<or> round_half_even x = f + 1"
      by (simp add: round_half_even_def Let_def f_def)
    then show ?thesis using 3 by auto
  qed
qed

lemma rnd_nearest:
  assumes "0 < q"
  shows "\<exists>m. rnd q = of_int m * pow2 (ilog2 q - 52) \<and> 2 ^ 52 \<le> m \<and> m \<le> 2 ^ 53
             \<and> \<bar>rnd q - q\<bar> \<le> pow2 (ilog2 q - 52) / 2"
proof -
  let ?u = "pow2 (ilog2 q - 52)"
  let ?m = "round_half_even (q / ?u)"
  have u: "0 < ?u" by (rule pow2_pos)
  have r: "rnd q = of_int ?m * ?u" using assms by (simp add: rnd_def Let_def)
  have lo: "2 ^ 52 \<le> ?m" using scaled_ge [OF assms] by (intro round_half_even_ge) simp
  have hi: "?m \<le> 2 ^ 53" using scaled_lt [OF assms] by (intro round_half_even_le) simp
  have "\<bar>of_int ?m - q / ?u\<bar> * ?u \<le> 1 / 2 * ?u"
    using round_half_even_error [of "q / ?u"] u by (intro mult_right_mono) simp_all
  moreover have "\<bar>of_int ?m - q / ?u\<bar> * ?u = \<bar>of_int ?m * ?u - q\<bar>"
  proof -
    have "\<bar>of_int ?m - q / ?u\<bar> * ?u = \<bar>(of_int ?m - q / ?u) * ?u\<bar>"
      using u by (simp add: abs_mult)
    also have "(of_int ?m - q / ?u) * ?u = of_int ?m * ?u - q"
      using u by (simp add: field_simps)
    finally show ?thesis .
  qed
  ultimately have "\<bar>rnd q - q\<bar> \<le> ?u / 2" using r by simp
  then show ?thesis using r lo hi by blast
qed

subsection \<open>Arithmetic\<close>

datatype error =
    ValueError string
  | RuntimeError string
  | IndexError
  | ZeroDivisionError
  | OverflowError
  | TypeError string
  | ProviderError string

definition fadd :: "pyfloat \<Rightarrow> pyfloat \<Rightarrow> pyfloat" where
  "fadd x y = rnd (x + y)"

definition fsub :: "pyfloat \<Rightarrow> pyfloat \<Rightarrow> pyfloat" where
  "fsub x y = rnd (x - y)"

definition fmul :: "pyfloat \<Rightarrow> pyfloat \<Rightarrow> pyfloat" where
  "fmul x y = rnd (x * y)"

definition fdiv :: "pyfloat \<Rightarrow> pyfloat \<Rightarrow> error + pyfloat" where
  "fdiv x y = (if y = 0 then Inl ZeroDivisionError else Inr (rnd (x / y)))"

text \<open>A decimal literal of the source, such as \<^verbatim>\<open>0.37\<close>, is the float nearest to it.\<close>

definition flit :: "rat \<Rightarrow> pyfloat" where
  "flit q = rnd q"

text \<open>\<^verbatim>\<open>float(n)\<close> of an integer.\<close>

definition float_of_int :: "int \<Rightarrow> pyfloat" where
  "float_of_int n = rnd (of_int n)"

lemma float_of_int_pos: "0 < n \<Longrightarrow> 0 < float_of_int n"
  by (simp add: float_of_int_def rnd_pos)

section \<open>Dividend events and the interval sum (ak\_client.py)\<close>

text \<open>
  Dates are the \<^verbatim>\<open>YYYY-MM-DD\<close> strings of the source and are compared as Python
  compares strings, lexicographically by character code.
\<close>

record DividendEvent =
  ex_date :: string
  cash_per_share :: pyfloat

fun sum_cash_loop :: "DividendEvent list \<Rightarrow> string \<Rightarrow> string \<Rightarrow> pyfloat \<times> int \<Rightarrow> pyfloat \<times> int" where
  "sum_cash_loop [] s e (tot, cnt) = (tot, cnt)"
| "sum_cash_loop (ev # evs) s e (tot, cnt) =
     (if s < ex_date ev \<and> ex_date ev \<le> e
      then sum_cash_loop evs s e (fadd tot (cash_per_share ev), cnt + 1)
      else sum_cash_loop evs s e (tot, cnt))"

definition sum_cash_dividends_in_interval :: "DividendEvent list \<Rightarrow> string \<Rightarrow> string \<Rightarrow> pyfloat \<times> int" where
  "sum_cash_dividends_in_interval events s e = sum_cash_loop events s e (0, 0)"

text \<open>The events that the claim counts: those with \<open>s < ex_date \<le> e\<close>.\<close>

definition in_interval :: "string \<Rightarrow> string \<Rightarrow> DividendEvent \<Rightarrow> bool" where
  "in_interval s e ev = (s < ex_date ev \<and> ex_date ev \<le> e)"

lemma sum_cash_loop_eq:
  "sum_cash_loop evs s e (t, n) =
     (foldl fadd t (map cash_per_share (filter (in_interval s e) evs)),
      n + int (length (filter (in_interval s e) evs)))"
  by (induction evs arbitrary: t n) (simp_all add: in_interval_def)

text \<open>
  C4. \<open>sum_cash_dividends_in_interval\<close> returns the float sum (accumulated from 0.0 in
  list order) of \<open>cash_per_share\<close> and the count over exactly the events with
  \<open>start_trade_date < ex_date \<le> end_trade_date\<close>; for events at 2023-06-19 and
  2023-12-20 and the interval (2023-06-19, 2023-12-20] only the December event is
  included.
\<close>

theorem sum_cash_dividends_in_interval_spec:
  "sum_cash_dividends_in_interval evs s e =
     (foldl fadd 0 (map cash_per_share (filter (in_interval s e) evs)),
      int (length (filter (in_interval s e) evs)))
   \<and> (\<forall>ev. in_interval s e ev \<longleftrightarrow> s < ex_date ev \<and> ex_date ev \<le> e)
   \<and> sum_cash_dividends_in_interval
        [\<lparr>ex_date = ''2023-06-19'', cash_per_share = c1\<rparr>,
         \<lparr>ex_date = ''2023-12-20'', cash_per_share = c2\<rparr>]
        ''2023-06-19'' ''2023-12-20'' = (fadd 0 c2, 1)"
  by (simp add: sum_cash_dividends_in_interval_def sum_cash_loop_eq in_interval_def)

section \<open>The return calculator (calculator.py)\<close>

text \<open>
  The market-data side of the program is the boundary of the model. A \<open>provider\<close>
  fixes what the outside world answers: the outcome (a value, or the exception raised)
  of each lookup of \<^verbatim>\<open>ak_client\<close> that wraps a query of the data library, the reply
  of the daily-history query, today's date, the name of a stock as \<^verbatim>\<open>get_stock_name\<close>
  finds it, the name-to-code dictionary that \<^verbatim>\<open>build_code_maps\<close> builds from the
  listings (in insertion order), and the C library's \<^verbatim>\<open>pow\<close> on floats.
\<close>

datatype reply =
    Raises error
  | NoFrame
  | Frame "string option list"

record provider =
  get_unadjusted_close_on :: "string \<Rightarrow> string \<Rightarrow> error + pyfloat"
  get_dividends :: "string \<Rightarrow> error + DividendEvent list"
  sum_additional_shares_in_interval :: "string \<Rightarrow> string \<Rightarrow> string \<Rightarrow> error + pyfloat \<times> int \<times> string"
  stock_zh_a_hist :: "string \<Rightarrow> string \<Rightarrow> string \<Rightarrow> reply"
  today_str :: string
  get_stock_name :: "string \<Rightarrow> string"
  name_to_code :: "(string \<times> string) list"
  float_pow :: "pyfloat \<Rightarrow> pyfloat \<Rightarrow> error + pyfloat"

record IntervalResult =
  code :: string
  start_trade_date :: string
  end_trade_date :: string
  start_close :: pyfloat
  end_close :: pyfloat
  dividend_sum_per_share :: pyfloat
  dividend_event_count :: int
  additional_shares_per_share :: pyfloat
  additional_event_count :: int
  additional_value_per_share :: pyfloat
  bonus_allot_desc :: string
  total_return :: pyfloat

text \<open>An exception raised by a step ends the computation with that exception.\<close>

definition bind_err :: "error + 'a \<Rightarrow> ('a \<Rightarrow> error + 'b) \<Rightarrow> error + 'b" where
  "bind_err m f = (case m of Inl x \<Rightarrow> Inl x | Inr v \<Rightarrow> f v)"

definition compute_interval_total_return ::
  "provider \<Rightarrow> string \<Rightarrow> string \<Rightarrow> string \<Rightarrow> error + IntervalResult" where
  "compute_interval_total_return P c s e =
     bind_err (get_unadjusted_close_on P c s) (\<lambda>sc.
     bind_err (get_unadjusted_close_on P c e) (\<lambda>ec.
     bind_err (get_dividends P c) (\<lambda>events.
     let (div_sum, div_count) = sum_cash_dividends_in_interval events s e in
     bind_err (sum_additional_shares_in_interval P c s e) (\<lambda>(add_shares, add_count, add_desc).
     let add_value = fmul ec add_shares in
     bind_err (fdiv (fsub (fadd (fadd ec div_sum) add_value) sc) sc) (\<lambda>tr.
       Inr \<lparr>code = c, start_trade_date = s, end_trade_date = e,
            start_close = sc, end_close = ec,
            dividend_sum_per_share = div_sum, dividend_event_count = div_count,
            additional_shares_per_share = add_shares, additional_event_count = add_count,
            additional_value_per_share = add_value, bonus_allot_desc = add_desc,
            total_return = tr\<rparr>)))))"

text \<open>
  The literal case of the specification as a provider: closes 10.0 and 12.0, one
  dividend of 0.5 inside the interval, 0.1 additional shares per share; the history
  has two trading days 365 days apart, and the power with exponent 1.0 is exact.
\<close>

definition literal_provider :: provider where
  "literal_provider =
     \<lparr>get_unadjusted_close_on = (\<lambda>c d. if d = ''2023-01-03'' then Inr 10 else Inr 12),
      get_dividends = (\<lambda>c. Inr [\<lparr>ex_date = ''2023-06-19'', cash_per_share = flit (1 / 2)\<rparr>]),
      sum_additional_shares_in_interval = (\<lambda>c s e. Inr (flit (1 / 10), 1, [])),
      stock_zh_a_hist = (\<lambda>sy s e. Frame [Some ''2023-01-03'', Some ''2024-01-03'']),
      today_str = ''2024-01-05'',
      get_stock_name = (\<lambda>c. c),
      name_to_code = [],
      float_pow = (\<lambda>x y. if y = 1 then Inr x else Inl OverflowError)\<rparr>"

lemma rnd_zero [simp]: "rnd 0 = 0"
  by (simp add: rnd_def)

lemma literal_half: "flit (1 / 2) = 1 / 2"
  by (simp add: flit_def rnd_eval)

lemma literal_div_sum: "fadd 0 (flit (1 / 2)) = 1 / 2"
  by (simp add: fadd_def flit_def rnd_eval)

lemma literal_add_value: "fmul 12 (flit (1 / 10)) = 1351079888211149 / 1125899906842624"
  by (simp add: fmul_def flit_def rnd_eval)

lemma literal_total_return:
  "fdiv (fsub (fadd (fadd 12 (1 / 2)) (1351079888211149 / 1125899906842624)) 10) 10 =
     Inr (6665327448508333 / 18014398509481984)"
  by (simp add: fdiv_def fsub_def fadd_def rnd_eval)

lemma literal_floats:
  "flit (12 / 10) = 5404319552844595 / 4503599627370496"
  "flit (37 / 100) = 3332663724254167 / 9007199254740992"
  by (simp_all add: flit_def rnd_eval)

lemma bind_err_simps [simp]:
  "bind_err (Inl x) f = Inl x"
  "bind_err (Inr v) f = f v"
  by (simp_all add: bind_err_def)

lemma compute_interval_total_return_literal:
  "compute_interval_total_return literal_provider c ''2023-01-03'' ''2023-12-29'' =
     Inr \<lparr>code = c, start_trade_date = ''2023-01-03'', end_trade_date = ''2023-12-29'',
          start_close = 10, end_close = 12,
          dividend_sum_per_share = 1 / 2, dividend_event_count = 1,
          additional_shares_per_share = flit (1 / 10), additional_event_count = 1,
          additional_value_per_share = 1351079888211149 / 1125899906842624,
          bonus_allot_desc = [],
          total_return = 6665327448508333 / 18014398509481984\<rparr>"
proof -
  have sum: "sum_cash_dividends_in_interval
      [\<lparr>ex_date = ''2023-06-19'', cash_per_share = flit (1 / 2)\<rparr>]
      ''2023-01-03'' ''2023-12-29'' = (1 / 2, 1)"
    by (simp add: sum_cash_dividends_in_interval_def literal_div_sum)
  show ?thesis
    by (simp add: compute_interval_total_return_def literal_provider_def sum
        literal_add_value literal_total_return)
qed

lemma compute_interval_total_return_unfold:
  assumes "get_unadjusted_close_on P c s = Inr sc"
    and "get_unadjusted_close_on P c e = Inr ec"
    and "get_dividends P c = Inr evs"
    and "sum_additional_shares_in_interval P c s e = Inr (sh, n, d)"
  shows "compute_interval_total_return P c s e =
           (case fdiv (fsub (fadd (fadd ec (fst (sum_cash_dividends_in_interval evs s e)))
                                  (fmul ec sh)) sc) sc of
              Inl x \<Rightarrow> Inl x
            | Inr tr \<Rightarrow>
                Inr \<lparr>code = c, start_trade_date = s, end_trade_date = e,
                     start_close = sc, end_close = ec,
                     dividend_sum_per_share = fst (sum_cash_dividends_in_interval evs s e),
                     dividend_event_count = snd (sum_cash_dividends_in_interval evs s e),
                     additional_shares_per_share = sh, additional_event_count = n,
                     additional_value_per_share = fmul ec sh, bonus_allot_desc = d,
                     total_return = tr\<rparr>)"
  using assms
  by (simp add: compute_interval_total_return_def Let_def split_beta bind_err_def
      split: sum.splits)

lemma literal_total_return_flit:
  "fdiv (fsub (fadd (fadd 12 (flit (1 / 2))) (fmul 12 (flit (1 / 10)))) 10) 10 =
     Inr (6665327448508333 / 18014398509481984)"
  by (simp only: literal_half literal_add_value literal_total_return)

text \<open>
  C1 (as amended). When the two price lookups, the dividend lookup and the
  additional-share lookup succeed, \<open>compute_interval_total_return\<close> computes, in float
  arithmetic, \<open>additional_value_per_share = end_close * additional_shares_per_share\<close> and
  \<open>total_return = (end_close + div_sum + additional_value - start_close) / start_close\<close>,
  raising the division error exactly when \<open>start_close\<close> is zero. For closes 10.0 and
  12.0, dividend sum 0.5 and 0.1 additional shares the additional value is
  1.2000000000000002 and the total return 0.36999999999999994: within 1e-15 of 1.2 and
  of 0.37, not equal to them.
\<close>

theorem compute_interval_total_return_formula:
  assumes "get_unadjusted_close_on P c s = Inr sc"
    and "get_unadjusted_close_on P c e = Inr ec"
    and "get_dividends P c = Inr evs"
    and "sum_additional_shares_in_interval P c s e = Inr (sh, n, d)"
  shows "compute_interval_total_return P c s e =
           (case fdiv (fsub (fadd (fadd ec (fst (sum_cash_dividends_in_interval evs s e)))
                                  (fmul ec sh)) sc) sc of
              Inl x \<Rightarrow> Inl x
            | Inr tr \<Rightarrow>
                Inr \<lparr>code = c, start_trade_date = s, end_trade_date = e,
                     start_close = sc, end_close = ec,
                     dividend_sum_per_share = fst (sum_cash_dividends_in_interval evs s e),
                     dividend_event_count = snd (sum_cash_dividends_in_interval evs s e),
                     additional_shares_per_share = sh, additional_event_count = n,
                     additional_value_per_share = fmul ec sh, bonus_allot_desc = d,
                     total_return = tr\<rparr>)
         \<and> (sc = 0 \<longleftrightarrow> compute_interval_total_return P c s e = Inl ZeroDivisionError)
         \<and> fmul 12 (flit (1 / 10)) = 1351079888211149 / 1125899906842624
         \<and> fdiv (fsub (fadd (fadd 12 (flit (1 / 2))) (fmul 12 (flit (1 / 10)))) 10) 10 =
             Inr (6665327448508333 / 18014398509481984)
         \<and> \<bar>1351079888211149 / 1125899906842624 - 12 / (10::rat)\<bar> \<le> 1 / 10 ^ 15
         \<and> \<bar>6665327448508333 / 18014398509481984 - 37 / (100::rat)\<bar> \<le> 1 / 10 ^ 15"
proof (intro conjI)
  show "sc = 0 \<longleftrightarrow> compute_interval_total_return P c s e = Inl ZeroDivisionError"
    using assms
    by (simp add: compute_interval_total_return_def Let_def split_beta fdiv_def)
  show "fmul 12 (flit (1 / 10)) = 1351079888211149 / 1125899906842624"
    by (rule literal_add_value)
  show "fdiv (fsub (fadd (fadd 12 (flit (1 / 2))) (fmul 12 (flit (1 / 10)))) 10) 10 =
           Inr (6665327448508333 / 18014398509481984)"
    by (rule literal_total_return_flit)
  show "\<bar>1351079888211149 / 1125899906842624 - 12 / (10::rat)\<bar> \<le> 1 / 10 ^ 15"
    by simp
  show "\<bar>6665327448508333 / 18014398509481984 - 37 / (100::rat)\<bar> \<le> 1 / 10 ^ 15"
    by simp
qed (rule compute_interval_total_return_unfold [OF assms])

theorem compute_interval_total_return_formula_witness:
  "compute_interval_total_return literal_provider ''600519'' ''2023-01-03'' ''2023-12-29'' =
     Inr \<lparr>code = ''600519'', start_trade_date = ''2023-01-03'',
          end_trade_date = ''2023-12-29'', start_close = 10, end_close = 12,
          dividend_sum_per_share = 1 / 2, dividend_event_count = 1,
          additional_shares_per_share = flit (1 / 10), additional_event_count = 1,
          additional_value_per_share = 1351079888211149 / 1125899906842624,
          bonus_allot_desc = [],
          total_return = 6665327448508333 / 18014398509481984\<rparr>"
proof -
  have sum: "sum_cash_dividends_in_interval
      [\<lparr>ex_date = ''2023-06-19'', cash_per_share = flit (1 / 2)\<rparr>]
      ''2023-01-03'' ''2023-12-29'' = (1 / 2, 1)"
    by (simp add: sum_cash_dividends_in_interval_def literal_div_sum)
  have "compute_interval_total_return literal_provider ''600519'' ''2023-01-03'' ''2023-12-29'' =
      (case fdiv (fsub (fadd (fadd 12 (fst (sum_cash_dividends_in_interval
                 [\<lparr>ex_date = ''2023-06-19'', cash_per_share = flit (1 / 2)\<rparr>]
                 ''2023-01-03'' ''2023-12-29'')))
              (fmul 12 (flit (1 / 10)))) 10) 10 of
         Inl x \<Rightarrow> Inl x
       | Inr tr \<Rightarrow>
           Inr \<lparr>code = ''600519'', start_trade_date = ''2023-01-03'',
                end_trade_date = ''2023-12-29'', start_close = 10, end_close = 12,
                dividend_sum_per_share = fst (sum_cash_dividends_in_interval
                  [\<lparr>ex_date = ''2023-06-19'', cash_per_share = flit (1 / 2)\<rparr>]
                  ''2023-01-03'' ''2023-12-29''),
                dividend_event_count = snd (sum_cash_dividends_in_interval
                  [\<lparr>ex_date = ''2023-06-19'', cash_per_share = flit (1 / 2)\<rparr>]
                  ''2023-01-03'' ''2023-12-29''),
                additional_shares_per_share = flit (1 / 10), additional_event_count = 1,
                additional_value_per_share = fmul 12 (flit (1 / 10)), bonus_allot_desc = [],
                total_return = tr\<rparr>)"
    using compute_interval_total_return_formula
      [of literal_provider "''600519''" "''2023-01-03''" 10 "''2023-12-29''" 12
          "[\<lparr>ex_date = ''2023-06-19'', cash_per_share = flit (1 / 2)\<rparr>]"
          "flit (1 / 10)" 1 "[]"]
    by (simp add: literal_provider_def)
  then show ?thesis
    by (simp add: sum literal_add_value literal_total_return)
qed

theorem total_return_literal_counterexample:
  "\<exists>r. compute_interval_total_return literal_provider ''600519'' ''2023-01-03'' ''2023-12-29''
          = Inr r
       \<and> start_close r = 10 \<and> end_close r = 12 \<and> dividend_sum_per_share r = flit (1 / 2)
       \<and> additional_shares_per_share r = flit (1 / 10)
       \<and> additional_value_per_share r \<noteq> flit (12 / 10)
       \<and> total_return r \<noteq> flit (37 / 100)"
proof -
  have a: "(1351079888211149 / 1125899906842624 :: rat) \<noteq> flit (12 / 10)"
    by (simp only: literal_floats)
  have b: "(6665327448508333 / 18014398509481984 :: rat) \<noteq> flit (37 / 100)"
    by (simp only: literal_floats)
  show ?thesis
    unfolding compute_interval_total_return_literal using a b
    by (simp add: literal_half)
qed

theorem sum_cash_dividends_in_interval_witness:
  "sum_cash_dividends_in_interval
     [\<lparr>ex_date = ''2023-06-19'', cash_per_share = 1 / 2\<rparr>,
      \<lparr>ex_date = ''2023-12-20'', cash_per_share = 3 / 4\<rparr>]
     ''2023-06-19'' ''2023-12-20'' = (3 / 4, 1)"
proof -
  have "fadd 0 (3 / 4) = 3 / 4"
    by (simp add: fadd_def rnd_eval)
  then show ?thesis
    using sum_cash_dividends_in_interval_spec
      [of "[\<lparr>ex_date = ''2023-06-19'', cash_per_share = 1 / 2\<rparr>,
            \<lparr>ex_date = ''2023-12-20'', cash_per_share = 3 / 4\<rparr>]"
          "''2023-06-19''" "''2023-12-20''" "1 / 2" "3 / 4"]
    by (simp add: in_interval_def)
qed

section \<open>The dividend-plan text parser (ak\_client.py)\<close>

text \<open>
  A Python string is a sequence of Unicode code points, modelled as a list of their
  numbers. The alphabet of the model is ASCII together with characters that have no
  case and are no decimal digit (the CJK ideographs and full-width brackets of the
  plan texts): \<^verbatim>\<open>\d\<close> is the ASCII digits and \<^verbatim>\<open>lower()\<close> changes the ASCII capitals
  only.
\<close>

type_synonym ustr = "nat list"

abbreviation (input) u_mei :: nat where "u_mei \<equiv> 27599"
abbreviation (input) u_gu :: nat where "u_gu \<equiv> 32929"
abbreviation (input) u_pai :: nat where "u_pai \<equiv> 27966"
abbreviation (input) u_fa :: nat where "u_fa \<equiv> 21457"
abbreviation (input) u_xian :: nat where "u_xian \<equiv> 29616"
abbreviation (input) u_jin :: nat where "u_jin \<equiv> 37329"
abbreviation (input) u_hong :: nat where "u_hong \<equiv> 32418"
abbreviation (input) u_li :: nat where "u_li \<equiv> 21033"
abbreviation (input) u_xi :: nat where "u_xi \<equiv> 24687"
abbreviation (input) u_yuan :: nat where "u_yuan \<equiv> 20803"
abbreviation (input) u_song :: nat where "u_song \<equiv> 36865"
abbreviation (input) u_zhuan :: nat where "u_zhuan \<equiv> 36716"
abbreviation (input) u_han :: nat where "u_han \<equiv> 21547"
abbreviation (input) u_shui :: nat where "u_shui \<equiv> 31246"
abbreviation (input) u_bu :: nat where "u_bu \<equiv> 19981"
abbreviation (input) u_fen :: nat where "u_fen \<equiv> 20998"
abbreviation (input) u_pei :: nat where "u_pei \<equiv> 37197"
abbreviation (input) u_zeng :: nat where "u_zeng \<equiv> 22686"
abbreviation (input) u_fw_lparen :: nat where "u_fw_lparen \<equiv> 65288"
abbreviation (input) u_fw_rparen :: nat where "u_fw_rparen \<equiv> 65289"
abbreviation (input) u_lparen :: nat where "u_lparen \<equiv> 40"
abbreviation (input) u_rparen :: nat where "u_rparen \<equiv> 41"
abbreviation (input) u_space :: nat where "u_space \<equiv> 32"
abbreviation (input) u_dot :: nat where "u_dot \<equiv> 46"
abbreviation (input) u_0 :: nat where "u_0 \<equiv> 48"
abbreviation (input) u_1 :: nat where "u_1 \<equiv> 49"
abbreviation (input) u_2 :: nat where "u_2 \<equiv> 50"
abbreviation (input) u_3 :: nat where "u_3 \<equiv> 51"
abbreviation (input) u_4 :: nat where "u_4 \<equiv> 52"
abbreviation (input) u_5 :: nat where "u_5 \<equiv> 53"
abbreviation (input) u_8 :: nat where "u_8 \<equiv> 56"

subsection \<open>The regular expressions of the source\<close>

datatype cls = Digit | DigitOrDot

fun in_cls :: "cls \<Rightarrow> nat \<Rightarrow> bool" where
  "in_cls Digit c = (48 \<le> c \<and> c \<le> 57)"
| "in_cls DigitOrDot c = ((48 \<le> c \<and> c \<le> 57) \<or> c = 46)"

text \<open>
  \<open>Lit w\<close> is the literal text \<open>w\<close>, \<open>Opt r\<close> is \<^verbatim>\<open>(?:r)?\<close>, \<open>Plus k\<close> and \<open>Star k\<close> are
  \<^verbatim>\<open>k+\<close> and \<^verbatim>\<open>k*\<close> of a character class, \<open>Cat\<close> is concatenation and \<open>Grp r\<close> is the
  capturing group \<^verbatim>\<open>(r)\<close>.
\<close>

datatype rx = Lit ustr | Opt rx | Plus cls | Star cls | Cat rx rx | Grp rx

text \<open>
  A backtracking matcher as \<^verbatim>\<open>re\<close> runs it: from a state (the rest of the text, the
  text captured so far) it lists every way to match, in the order the engine tries
  them: an optional part first with and then without, a repetition from the longest
  to the shortest.
\<close>

fun strip_prefix :: "'a list \<Rightarrow> 'a list \<Rightarrow> 'a list option" where
  "strip_prefix [] s = Some s"
| "strip_prefix (a # w) [] = None"
| "strip_prefix (a # w) (c # s) = (if a = c then strip_prefix w s else None)"

text \<open>
  The rests of the text after a run of characters of the class, the longest run first;
  the last one is the text itself (the empty run).
\<close>

fun many :: "cls \<Rightarrow> ustr \<Rightarrow> ustr list" where
  "many k [] = [[]]"
| "many k (c # cs) = (if in_cls k c then many k cs @ [c # cs] else [c # cs])"

fun rx_match :: "rx \<Rightarrow> ustr \<times> ustr option \<Rightarrow> (ustr \<times> ustr option) list" where
  "rx_match (Lit w) (s, g) = (case strip_prefix w s of None \<Rightarrow> [] | Some s' \<Rightarrow> [(s', g)])"
| "rx_match (Opt r) (s, g) = rx_match r (s, g) @ [(s, g)]"
| "rx_match (Plus k) (s, g) = map (\<lambda>s'. (s', g)) (butlast (many k s))"
| "rx_match (Star k) (s, g) = map (\<lambda>s'. (s', g)) (many k s)"
| "rx_match (Cat a b) (s, g) = concat (map (rx_match b) (rx_match a (s, g)))"
| "rx_match (Grp r) (s, g) =
     map (\<lambda>(s', g'). (s', Some (take (length s - length s') s))) (rx_match r (s, g))"

text \<open>
  \<^verbatim>\<open>re.search\<close>: the first start position, from the left, with a match; the result is
  \<^verbatim>\<open>group(1)\<close> of that match.
\<close>

fun re_search :: "rx \<Rightarrow> ustr \<Rightarrow> ustr option option" where
  "re_search r [] = (case rx_match r ([], None) of [] \<Rightarrow> None | (s', g) # _ \<Rightarrow> Some g)"
| "re_search r (c # cs) =
     (case rx_match r (c # cs, None) of [] \<Rightarrow> re_search r cs | (s', g) # _ \<Rightarrow> Some g)"

fun cats :: "rx list \<Rightarrow> rx" where
  "cats [] = Lit []"
| "cats [r] = r"
| "cats (r # rs) = Cat r (cats rs)"

definition amount_yuan :: "rx list" where
  "amount_yuan = [Grp (Plus DigitOrDot), Lit [u_yuan]]"

definition cash_bonus :: "rx list" where
  "cash_bonus = [Opt (Lit [u_xian, u_jin]), Opt (Lit [u_hong, u_li])]"

definition rx_per_share :: rx where
  "rx_per_share = cats ([Lit [u_mei, u_gu, u_pai], Opt (Lit [u_fa])] @ cash_bonus @ amount_yuan)"

definition rx_per_share_xi :: rx where
  "rx_per_share_xi = cats ([Lit [u_mei, u_gu, u_pai, u_xi]] @ cash_bonus @ amount_yuan)"

definition patterns :: "rx list" where
  "patterns =
     [cats ([Lit [u_1, u_0, u_pai]] @ amount_yuan),
      cats ([Lit [u_mei, u_1, u_0, u_gu, u_pai], Opt (Lit [u_fa])] @ cash_bonus @ amount_yuan),
      cats ([Lit [u_mei, u_1, u_0, u_gu], Opt (Lit [u_pai, u_fa])] @ cash_bonus @ amount_yuan),
      cats ([Lit [u_1, u_0, u_song], Plus Digit, Opt (Cat (Lit [u_dot]) (Plus Digit)),
             Opt (Lit [u_gu]), Opt (Lit [u_zhuan]), Star Digit,
             Opt (Cat (Lit [u_dot]) (Plus Digit)), Opt (Lit [u_gu]), Lit [u_pai]] @ amount_yuan),
      cats ([Lit [u_1, u_0, u_pai]] @ amount_yuan @ [Lit [u_lparen, u_han, u_shui, u_rparen]])]"

definition rx_pai :: rx where
  "rx_pai = cats ([Lit [u_pai]] @ amount_yuan)"

subsection \<open>\<^verbatim>\<open>float()\<close> of a captured amount\<close>

definition dec :: "ustr \<Rightarrow> nat" where
  "dec ds = foldl (\<lambda>a c. 10 * a + (c - 48)) 0 ds"

text \<open>
  \<^verbatim>\<open>float(s)\<close> for a text of digits and dots, which is all a captured amount can be:
  digits with at most one point and at least one digit denote the nearest float,
  anything else raises \<^verbatim>\<open>ValueError\<close>.
\<close>

definition py_float :: "ustr \<Rightarrow> error + pyfloat" where
  "py_float s =
     (let ip = takeWhile (in_cls Digit) s; r = dropWhile (in_cls Digit) s
      in case r of
           [] \<Rightarrow> if ip = [] then Inl (ValueError ''could not convert string to float'')
                 else Inr (rnd (of_nat (dec ip)))
         | c # fp \<Rightarrow>
             if c = u_dot \<and> list_all (in_cls Digit) fp \<and> (ip \<noteq> [] \<or> fp \<noteq> [])
             then Inr (rnd (of_nat (dec ip) + of_nat (dec fp) / 10 ^ length fp))
             else Inl (ValueError ''could not convert string to float''))"

text \<open>\<^verbatim>\<open>float(m.group(1))\<close>; a group that took no part in the match is \<^verbatim>\<open>None\<close>.\<close>

definition float_group :: "ustr option \<Rightarrow> error + pyfloat" where
  "float_group g = (case g of None \<Rightarrow> Inl (ValueError ''float() argument'') | Some s \<Rightarrow> py_float s)"

subsection \<open>The parser\<close>

definition normalize_text :: "ustr \<Rightarrow> ustr" where
  "normalize_text plan_text =
     map (\<lambda>c. if 65 \<le> c \<and> c \<le> 90 then c + 32 else c)
       (filter (\<lambda>c. c \<noteq> u_space)
         (map (\<lambda>c. if c = u_fw_rparen then u_rparen else c)
           (map (\<lambda>c. if c = u_fw_lparen then u_lparen else c) plan_text)))"

fun contains :: "'a list \<Rightarrow> 'a list \<Rightarrow> bool" where
  "contains w [] = (w = [])"
| "contains w (c # cs) = (strip_prefix w (c # cs) \<noteq> None \<or> contains w cs)"

text \<open>The loop over \<open>patterns\<close>: the first pattern that matches with an amount that parses.\<close>

fun try_patterns :: "rx list \<Rightarrow> ustr \<Rightarrow> pyfloat option" where
  "try_patterns [] t = None"
| "try_patterns (pat # pats) t =
     (case re_search pat t of
        None \<Rightarrow> try_patterns pats t
      | Some g \<Rightarrow>
          (case bind_err (float_group g) (\<lambda>v. fdiv v 10) of
             Inl x \<Rightarrow> try_patterns pats t
           | Inr val \<Rightarrow> Some val))"

definition per_share_match :: "ustr \<Rightarrow> ustr option option" where
  "per_share_match t =
     (case re_search rx_per_share t of None \<Rightarrow> re_search rx_per_share_xi t | Some g \<Rightarrow> Some g)"

definition parse_tail :: "ustr \<Rightarrow> pyfloat" where
  "parse_tail t =
     (case try_patterns patterns t of
        Some val \<Rightarrow> val
      | None \<Rightarrow>
          (case re_search rx_pai t of
             None \<Rightarrow> 0
           | Some g \<Rightarrow>
               if contains [u_mei, u_1, u_0, u_gu] t \<or> take 2 t = [u_1, u_0]
               then (case bind_err (float_group g) (\<lambda>v. fdiv v 10) of
                       Inl x \<Rightarrow> 0 | Inr val \<Rightarrow> val)
               else 0))"

definition parse_cash_per_share_from_text :: "ustr \<Rightarrow> pyfloat" where
  "parse_cash_per_share_from_text plan_text =
     (if plan_text = [] then 0
      else let t = normalize_text plan_text
           in case per_share_match t of
                None \<Rightarrow> parse_tail t
              | Some g \<Rightarrow>
                  (case float_group g of Inl x \<Rightarrow> parse_tail t | Inr val \<Rightarrow> val))"

text \<open>The comparison of \<^verbatim>\<open>_test_parsing.py\<close>: \<^verbatim>\<open>abs(a - b) <= tol\<close>.\<close>

definition approx_equal :: "pyfloat \<Rightarrow> pyfloat \<Rightarrow> pyfloat \<Rightarrow> bool" where
  "approx_equal a b tol = (\<bar>fsub a b\<bar> \<le> tol)"

lemmas parse_eval = parse_cash_per_share_from_text_def normalize_text_def per_share_match_def
  parse_tail_def rx_per_share_def rx_per_share_xi_def patterns_def rx_pai_def amount_yuan_def
  cash_bonus_def float_group_def py_float_def dec_def fdiv_def flit_def rnd_eval

lemma parse_literal_1:
  "parse_cash_per_share_from_text
     [u_1, u_0, u_pai, u_5, u_yuan, u_lparen, u_han, u_shui, u_rparen] = flit (5 / 10)"
  by (simp add: parse_eval)

lemma parse_literal_2:
  "parse_cash_per_share_from_text
     [u_mei, u_1, u_0, u_gu, u_pai, u_4, u_dot, u_3, u_yuan, u_lparen, u_han, u_shui, u_rparen]
   = flit (43 / 100)"
  by (simp add: parse_eval)

lemma parse_literal_3:
  "parse_cash_per_share_from_text
     [u_1, u_0, u_song, u_3, u_gu, u_zhuan, u_2, u_gu, u_pai, u_3, u_yuan,
      u_lparen, u_han, u_shui, u_rparen] = flit (3 / 10)"
  by (simp add: parse_eval)

lemma parse_literal_4:
  "parse_cash_per_share_from_text
     [u_1, u_0, u_pai, u_1, u_dot, u_2, u_yuan, u_zhuan, u_4, u_gu] = flit (12 / 100)"
  by (simp add: parse_eval)

lemma parse_literal_5:
  "parse_cash_per_share_from_text [u_mei, u_gu, u_pai, u_0, u_dot, u_5, u_yuan] = flit (5 / 10)"
  by (simp add: parse_eval)

lemma parse_literal_6:
  "parse_cash_per_share_from_text [u_mei, u_gu, u_pai, u_xi, u_0, u_dot, u_8, u_yuan]
   = flit (8 / 10)"
  by (simp add: parse_eval)

lemma parse_literal_7:
  "parse_cash_per_share_from_text
     [u_mei, u_1, u_0, u_gu, u_pai, u_fa, u_xian, u_jin, u_hong, u_li, u_5, u_dot, u_5, u_yuan]
   = flit (55 / 100)"
  by (simp add: parse_eval)

lemma parse_literal_8:
  "parse_cash_per_share_from_text [u_bu, u_fen, u_pei, u_bu, u_zhuan, u_zeng] = flit 0"
  by (simp add: parse_eval)

lemma parse_literal_9:
  "parse_cash_per_share_from_text [u_1, u_0, u_pai, u_0, u_yuan] = flit 0"
  by (simp add: parse_eval)

lemma parse_literal_10:
  "parse_cash_per_share_from_text
     [u_mei, u_1, u_0, u_gu, u_pai, u_space, u_space, u_2, u_space, u_yuan] = flit (2 / 10)"
  by (simp add: parse_eval)

lemma tolerance_pos: "0 \<le> flit (1 / 10 ^ 9)"
  by (simp add: flit_def rnd_eval)

lemma approx_equal_same: "approx_equal a a (flit (1 / 10 ^ 9))"
  using tolerance_pos by (simp add: approx_equal_def fsub_def)

text \<open>
  C2. On each of the ten literal plan texts of \<^verbatim>\<open>_test_parsing.py\<close> the parser returns
  the expected float within the absolute tolerance 1e-9 (it returns exactly the float
  that the expected literal denotes); the spaces of the tenth text are removed before
  matching.
\<close>

theorem parse_cash_per_share_literal_cases:
  "approx_equal (parse_cash_per_share_from_text
       [u_1, u_0, u_pai, u_5, u_yuan, u_lparen, u_han, u_shui, u_rparen])
     (flit (5 / 10)) (flit (1 / 10 ^ 9))
   \<and> approx_equal (parse_cash_per_share_from_text
       [u_mei, u_1, u_0, u_gu, u_pai, u_4, u_dot, u_3, u_yuan, u_lparen, u_han, u_shui, u_rparen])
     (flit (43 / 100)) (flit (1 / 10 ^ 9))
   \<and> approx_equal (parse_cash_per_share_from_text
       [u_1, u_0, u_song, u_3, u_gu, u_zhuan, u_2, u_gu, u_pai, u_3, u_yuan,
        u_lparen, u_han, u_shui, u_rparen])
     (flit (3 / 10)) (flit (1 / 10 ^ 9))
   \<and> approx_equal (parse_cash_per_share_from_text
       [u_1, u_0, u_pai, u_1, u_dot, u_2, u_yuan, u_zhuan, u_4, u_gu])
     (flit (12 / 100)) (flit (1 / 10 ^ 9))
   \<and> approx_equal (parse_cash_per_share_from_text [u_mei, u_gu, u_pai, u_0, u_dot, u_5, u_yuan])
     (flit (5 / 10)) (flit (1 / 10 ^ 9))
   \<and> approx_equal (parse_cash_per_share_from_text
       [u_mei, u_gu, u_pai, u_xi, u_0, u_dot, u_8, u_yuan])
     (flit (8 / 10)) (flit (1 / 10 ^ 9))
   \<and> approx_equal (parse_cash_per_share_from_text
       [u_mei, u_1, u_0, u_gu, u_pai, u_fa, u_xian, u_jin, u_hong, u_li, u_5, u_dot, u_5, u_yuan])
     (flit (55 / 100)) (flit (1 / 10 ^ 9))
   \<and> approx_equal (parse_cash_per_share_from_text [u_bu, u_fen, u_pei, u_bu, u_zhuan, u_zeng])
     (flit 0) (flit (1 / 10 ^ 9))
   \<and> approx_equal (parse_cash_per_share_from_text [u_1, u_0, u_pai, u_0, u_yuan])
     (flit 0) (flit (1 / 10 ^ 9))
   \<and> approx_equal (parse_cash_per_share_from_text
       [u_mei, u_1, u_0, u_gu, u_pai, u_space, u_space, u_2, u_space, u_yuan])
     (flit (2 / 10)) (flit (1 / 10 ^ 9))
   \<and> normalize_text [u_mei, u_1, u_0, u_gu, u_pai, u_space, u_space, u_2, u_space, u_yuan]
       = [u_mei, u_1, u_0, u_gu, u_pai, u_2, u_yuan]"
  unfolding parse_literal_1 parse_literal_2 parse_literal_3 parse_literal_4 parse_literal_5
    parse_literal_6 parse_literal_7 parse_literal_8 parse_literal_9 parse_literal_10
  by (intro conjI approx_equal_same) (simp add: normalize_text_def)

theorem parse_cash_per_share_literal_cases_witness:
  "\<bar>fsub (parse_cash_per_share_from_text
       [u_mei, u_1, u_0, u_gu, u_pai, u_4, u_dot, u_3, u_yuan, u_lparen, u_han, u_shui, u_rparen])
     (7746191359077253 / 18014398509481984)\<bar> \<le> 4835703278458517 / 4835703278458516698824704"
proof -
  have f: "flit (43 / 100) = 7746191359077253 / 18014398509481984"
    and t: "flit (1 / 10 ^ 9) = 4835703278458517 / 4835703278458516698824704"
    by (simp_all add: flit_def rnd_eval)
  have "approx_equal (parse_cash_per_share_from_text
       [u_mei, u_1, u_0, u_gu, u_pai, u_4, u_dot, u_3, u_yuan, u_lparen, u_han, u_shui, u_rparen])
     (flit (43 / 100)) (flit (1 / 10 ^ 9))"
    using parse_cash_per_share_literal_cases by blast
  then show ?thesis
    unfolding approx_equal_def f t .
qed

subsection \<open>The parser never returns a negative amount\<close>












section \<open>The trading window of one stock (ak\_client.py)\<close>

text \<open>
  The reply of the daily-history query \<^verbatim>\<open>ak.stock_zh_a_hist\<close>: it raises, returns
  \<^verbatim>\<open>None\<close>, or returns a data frame. Of a frame the model keeps the date column, each
  cell as \<^verbatim>\<open>pd.to_datetime(..., errors="coerce")\<close> and \<^verbatim>\<open>strftime("%Y-%m-%d")\<close> leave it:
  a date string, or \<open>None\<close> for a cell that is no date. A frame without rows is
  \<^verbatim>\<open>df.empty\<close>.
\<close>

definition is_space :: "char \<Rightarrow> bool" where
  "is_space ch = (let n = (of_char ch :: nat) in (9 \<le> n \<and> n \<le> 13) \<or> (28 \<le> n \<and> n \<le> 32))"

definition strip :: "string \<Rightarrow> string" where
  "strip s = rev (dropWhile is_space (rev (dropWhile is_space s)))"

definition isdigit :: "string \<Rightarrow> bool" where
  "isdigit s = (s \<noteq> [] \<and> list_all (\<lambda>ch. CHR ''0'' \<le> ch \<and> ch \<le> CHR ''9'') s)"

definition zfill :: "nat \<Rightarrow> string \<Rightarrow> string" where
  "zfill w s =
     (if w \<le> length s then s
      else case s of
             ch # rest \<Rightarrow>
               if ch = CHR ''+'' \<or> ch = CHR ''-''
               then ch # replicate (w - length s) CHR ''0'' @ rest
               else replicate (w - length s) CHR ''0'' @ s
           | [] \<Rightarrow> replicate w CHR ''0'')"

definition to_exchange_symbol :: "string \<Rightarrow> error + string" where
  "to_exchange_symbol c0 =
     (let c = strip c0
      in if c = [] then Inl (ValueError ''Invalid stock code'')
         else Inr (zfill 6 (if \<not> isdigit c then drop (length c - 6) c else c)))"

text \<open>\<^verbatim>\<open>s.replace("-", "")\<close> and \<^verbatim>\<open>end_date or today\<close>.\<close>

definition no_dashes :: "string \<Rightarrow> string" where
  "no_dashes s = filter (\<lambda>ch. ch \<noteq> CHR ''-'') s"

definition end_or_today :: "provider \<Rightarrow> string option \<Rightarrow> string" where
  "end_or_today P ed = (case ed of None \<Rightarrow> today_str P | Some x \<Rightarrow> if x = [] then today_str P else x)"

definition get_hist_unadjusted_range ::
  "provider \<Rightarrow> string \<Rightarrow> string \<Rightarrow> string option \<Rightarrow> error + string option list option" where
  "get_hist_unadjusted_range P c sd ed =
     bind_err (to_exchange_symbol c) (\<lambda>symbol.
       case stock_zh_a_hist P symbol (no_dashes sd) (no_dashes (end_or_today P ed)) of
         Raises x \<Rightarrow> Inl x
       | NoFrame \<Rightarrow> Inr None
       | Frame rows \<Rightarrow> Inr (Some rows))"

text \<open>\<^verbatim>\<open>sorted({d for d in ser.dropna().tolist()})\<close>: the distinct dates, ascending.\<close>

definition trade_dates :: "string option list \<Rightarrow> string list" where
  "trade_dates rows = sort (remdups (List.map_filter id rows))"

definition pick_start_trade_date :: "string \<Rightarrow> string list \<Rightarrow> error + string" where
  "pick_start_trade_date sd dates =
     (case find (\<lambda>d. sd \<le> d) dates of
        Some d \<Rightarrow> Inr d
      | None \<Rightarrow> Inl (ValueError ''No trading date found on/after start''))"

definition pick_end_trade_date :: "string \<Rightarrow> string list \<Rightarrow> error + string" where
  "pick_end_trade_date ed dates =
     (case takeWhile (\<lambda>d. d \<le> ed) dates of
        [] \<Rightarrow> Inl (ValueError ''No trading date found on/before end'')
      | ds \<Rightarrow> Inr (last ds))"

definition get_default_end_trade_date :: "provider \<Rightarrow> string list \<Rightarrow> error + string" where
  "get_default_end_trade_date P dates =
     (case takeWhile (\<lambda>d. d < today_str P) dates of
        [] \<Rightarrow> if dates = [] then Inl IndexError else Inr (last dates)
      | ds \<Rightarrow> Inr (last ds))"

definition fallback_symbols :: "string list" where
  "fallback_symbols = [''600000'', ''000001'', ''601318'', ''000002'']"

text \<open>
  The loop over the reference stocks: the dates of the first one whose query returns
  a frame with a valid date; the empty list when none does.
\<close>

fun fallback_dates :: "provider \<Rightarrow> string list \<Rightarrow> string \<Rightarrow> string option \<Rightarrow> string list" where
  "fallback_dates P [] sd ed = []"
| "fallback_dates P (sy # syms) sd ed =
     (case stock_zh_a_hist P sy (no_dashes sd) (no_dashes (end_or_today P ed)) of
        Raises x \<Rightarrow> fallback_dates P syms sd ed
      | NoFrame \<Rightarrow> fallback_dates P syms sd ed
      | Frame rows \<Rightarrow>
          if rows = [] \<or> trade_dates rows = [] then fallback_dates P syms sd ed
          else trade_dates rows)"

definition truthy :: "string option \<Rightarrow> bool" where
  "truthy ed = (case ed of None \<Rightarrow> False | Some x \<Rightarrow> x \<noteq> [])"

definition derive_from_calendar ::
  "provider \<Rightarrow> string \<Rightarrow> string option \<Rightarrow> string list \<Rightarrow> error + string \<times> string" where
  "derive_from_calendar P sd ed dates =
     (if dates = [] then Inl (RuntimeError ''Failed to fetch price history'')
      else
        bind_err (pick_start_trade_date sd dates) (\<lambda>s.
        bind_err (if truthy ed then pick_end_trade_date (end_or_today P ed) dates
                  else get_default_end_trade_date P dates) (\<lambda>e.
        if e < s then Inl (RuntimeError ''Derived start_trade_date is after end_trade_date'')
        else Inr (s, e))))"

definition derive_from_own ::
  "provider \<Rightarrow> string \<Rightarrow> string option \<Rightarrow> string list \<Rightarrow> error + string \<times> string" where
  "derive_from_own P sd ed dates =
     (if dates = [] then Inl (RuntimeError ''No valid trading dates found in price history'')
      else
        let start_candidates = filter (\<lambda>d. sd \<le> d) dates in
        if start_candidates = [] then Inl (RuntimeError ''No trading date on/after start_date'')
        else
          let s = hd start_candidates;
              boundary = end_or_today P ed;
              end_candidates = filter (\<lambda>d. d \<le> boundary) dates
          in if end_candidates = []
             then Inl (RuntimeError ''No trading date on/before end boundary'')
             else
               let e0 = last end_candidates;
                   e = (if ed = None \<and> e0 = today_str P \<and> 2 \<le> length end_candidates
                        then end_candidates ! (length end_candidates - 2) else e0)
               in if e < s
                  then Inl (RuntimeError ''Derived start_trade_date is after end_trade_date'')
                  else Inr (s, e))"

definition derive_trade_window_from_prices ::
  "provider \<Rightarrow> string \<Rightarrow> string \<Rightarrow> string option \<Rightarrow> error + string \<times> string" where
  "derive_trade_window_from_prices P c sd ed =
     bind_err (get_hist_unadjusted_range P c sd ed) (\<lambda>df.
       case df of
         None \<Rightarrow> derive_from_calendar P sd ed (fallback_dates P fallback_symbols sd ed)
       | Some rows \<Rightarrow>
           if rows = [] then derive_from_calendar P sd ed (fallback_dates P fallback_symbols sd ed)
           else derive_from_own P sd ed (trade_dates rows))"

text \<open>
  The trading days of the fetched window: the dates the derivation works on, the
  stock's own when its history has rows, the reference stock's otherwise.
\<close>

definition window_dates :: "provider \<Rightarrow> string \<Rightarrow> string \<Rightarrow> string option \<Rightarrow> string list" where
  "window_dates P c sd ed =
     (case get_hist_unadjusted_range P c sd ed of
        Inl x \<Rightarrow> []
      | Inr None \<Rightarrow> fallback_dates P fallback_symbols sd ed
      | Inr (Some rows) \<Rightarrow>
          if rows = [] then fallback_dates P fallback_symbols sd ed else trade_dates rows)"

lemma trade_dates_sorted: "sorted (trade_dates rows)"
  by (simp add: trade_dates_def)

lemma trade_dates_distinct: "distinct (trade_dates rows)"
  by (simp add: trade_dates_def)

lemma trade_dates_Nil [simp]: "trade_dates [] = []"
  by (simp add: trade_dates_def List.map_filter_simps)

lemma fallback_dates_sorted: "sorted (fallback_dates P syms sd ed) \<and> distinct (fallback_dates P syms sd ed)"
  by (induction syms) (auto simp: trade_dates_sorted trade_dates_distinct split: reply.splits)

lemma sorted_hd_le: "sorted xs \<Longrightarrow> d \<in> set xs \<Longrightarrow> hd xs \<le> (d::string)"
  by (cases xs) auto

lemma two_below_hd_less:
  assumes "sorted xs" "distinct xs" "2 \<le> length (filter (\<lambda>d. d \<le> t) xs)"
  shows "hd xs < (t::string)"
proof -
  let ?f = "filter (\<lambda>d. d \<le> t) xs"
  have d: "distinct ?f" using assms(2) by simp
  obtain a b r where f: "?f = a # b # r"
    using assms(3) by (cases ?f; cases "tl ?f") auto
  have ab: "a \<noteq> b" using d f by auto
  have "a \<in> set ?f" "b \<in> set ?f" using f by auto
  then have m: "a \<in> set xs" "b \<in> set xs" "a \<le> t" "b \<le> t" by auto
  then have "hd xs \<le> a" "hd xs \<le> b" using assms(1) sorted_hd_le by auto
  with m ab show ?thesis by force
qed

lemma last_two_less:
  assumes "sorted xs" "distinct xs" "2 \<le> length xs"
  shows "xs ! (length xs - 2) < (last xs :: string)"
proof -
  have s: "sorted_wrt (<) xs" using assms by (simp add: strict_sorted_iff)
  have "xs ! (length xs - 2) < xs ! (length xs - 1)"
    using assms(3) by (intro sorted_wrt_nth_less [OF s]) auto
  moreover have "last xs = xs ! (length xs - 1)"
    using assms(3) by (intro last_conv_nth) auto
  ultimately show ?thesis by simp
qed

lemma default_end_before_today:
  assumes "sorted ds" "distinct ds" "2 \<le> length (filter (\<lambda>d. d \<le> today_str P) ds)"
    and "get_default_end_trade_date P ds = Inr e"
  shows "e < today_str P"
proof -
  have h: "hd ds < today_str P" using two_below_hd_less [OF assms(1-3)] .
  have ne: "ds \<noteq> []" using assms(3) by auto
  then have tw: "takeWhile (\<lambda>d. d < today_str P) ds \<noteq> []"
    using h by (cases ds) auto
  then have "e = last (takeWhile (\<lambda>d. d < today_str P) ds)"
    using assms(4) by (auto simp: get_default_end_trade_date_def split: list.splits)
  then have "e \<in> set (takeWhile (\<lambda>d. d < today_str P) ds)"
    using tw by simp
  then show ?thesis by (auto dest: set_takeWhileD)
qed

lemma own_end_before_today:
  assumes "sorted ds" "distinct ds" "2 \<le> length (filter (\<lambda>d. d \<le> today_str P) ds)"
    and "derive_from_own P sd None ds = Inr (s, e)"
  shows "e < today_str P"
proof -
  let ?ec = "filter (\<lambda>d. d \<le> today_str P) ds"
  have ne: "?ec \<noteq> []" using assms(3) by auto
  have so: "sorted ?ec" "distinct ?ec" using assms(1,2) by (simp_all add: sorted_wrt_filter)
  have e: "e = (if last ?ec = today_str P then ?ec ! (length ?ec - 2) else last ?ec)"
    using assms(3,4) ne
    by (auto simp: derive_from_own_def Let_def end_or_today_def split: if_splits)
  show ?thesis
  proof (cases "last ?ec = today_str P")
    case True
    then show ?thesis using e last_two_less [OF so assms(3)] by simp
  next
    case False
    have "last ?ec \<in> set ?ec" using ne by (rule last_in_set)
    then have "last ?ec \<le> today_str P" by auto
    with False e show ?thesis by auto
  qed
qed

definition listed_provider :: provider where
  "listed_provider =
     \<lparr>get_unadjusted_close_on = (\<lambda>c d. if d = ''2024-01-03'' then Inr 10 else Inr 12),
      get_dividends = (\<lambda>c. Inr []),
      sum_additional_shares_in_interval = (\<lambda>c s e. Inr (0, 0, [])),
      stock_zh_a_hist = (\<lambda>sy s e.
         if sy = ''001220''
         then Frame [Some ''2024-01-03'', Some ''2024-01-04'', None, Some ''2024-01-05'']
         else if sy = ''000001'' then Frame [Some ''2024-01-02'', Some ''2024-01-03'']
         else NoFrame),
      today_str = ''2024-01-05'',
      get_stock_name = (\<lambda>c. c),
      name_to_code = [],
      float_pow = (\<lambda>x y. Inl OverflowError)\<rparr>"

lemma listed_today: "today_str listed_provider = ''2024-01-05''"
  by (simp add: listed_provider_def)

lemma listed_reply:
  "stock_zh_a_hist listed_provider sy s e =
     (if sy = ''001220''
      then Frame [Some ''2024-01-03'', Some ''2024-01-04'', None, Some ''2024-01-05'']
      else if sy = ''000001'' then Frame [Some ''2024-01-02'', Some ''2024-01-03'']
      else NoFrame)"
  by (simp add: listed_provider_def)

lemmas symbol_eval = to_exchange_symbol_def strip_def is_space_def isdigit_def zfill_def
  eval_nat_numeral

lemma sym_001220: "to_exchange_symbol ''001220'' = Inr ''001220''"
  by (simp add: symbol_eval)

lemma sym_1220: "to_exchange_symbol '' 1220'' = Inr ''001220''"
  by (simp add: symbol_eval)

lemma listed_hist:
  "get_hist_unadjusted_range listed_provider ''001220'' ''2019-01-01'' None =
     Inr (Some [Some ''2024-01-03'', Some ''2024-01-04'', None, Some ''2024-01-05''])"
  by (simp add: get_hist_unadjusted_range_def sym_001220 listed_reply)

lemma listed_dates:
  "trade_dates [Some ''2024-01-03'', Some ''2024-01-04'', None, Some ''2024-01-05''] =
     [''2024-01-03'', ''2024-01-04'', ''2024-01-05'']"
  by (simp add: trade_dates_def)

lemma listed_derive: "derive_trade_window_from_prices listed_provider ''001220'' ''2019-01-01'' None = Inr (''2024-01-03'', ''2024-01-04'')"
  by (simp add: derive_trade_window_from_prices_def listed_hist listed_dates derive_from_own_def end_or_today_def listed_today)

lemma fb_hist:
  "get_hist_unadjusted_range listed_provider ''600999'' ''2019-01-01'' None = Inr None"
  by (simp add: get_hist_unadjusted_range_def symbol_eval listed_reply)

lemma fb_dates:
  "fallback_dates listed_provider fallback_symbols ''2019-01-01'' None = [''2024-01-02'', ''2024-01-03'']"
  by (simp add: fallback_symbols_def listed_reply trade_dates_def)

lemma fb_derive: "derive_trade_window_from_prices listed_provider ''600999'' ''2019-01-01'' None = Inr (''2024-01-02'', ''2024-01-03'')"
  by (simp add: derive_trade_window_from_prices_def fb_hist fb_dates derive_from_calendar_def
    pick_start_trade_date_def get_default_end_trade_date_def truthy_def listed_today)

text \<open>
  C5. When the stock's own history has a valid trading date and its first trading day
  is after the requested \<open>start_date\<close>, the derived \<open>start_trade_date\<close> is that first
  trading day, and the derivation returns a window whenever one of the stock's
  trading days is on or before the end boundary (\<open>end_date\<close>, or today when it is
  absent); its only failure is the one for an end boundary before every trading day.
\<close>

theorem derive_start_is_first_trading_day:
  assumes hist: "get_hist_unadjusted_range P c sd ed = Inr (Some rows)"
    and ne: "trade_dates rows \<noteq> []"
    and late: "sd < hd (trade_dates rows)"
  shows "if \<exists>d \<in> set (trade_dates rows). d \<le> end_or_today P ed
         then \<exists>e. derive_trade_window_from_prices P c sd ed = Inr (hd (trade_dates rows), e)
                \<and> hd (trade_dates rows) \<le> e
         else derive_trade_window_from_prices P c sd ed =
                Inl (RuntimeError ''No trading date on/before end boundary'')"
proof -
  let ?ds = "trade_dates rows"
  let ?ec = "filter (\<lambda>d. d \<le> end_or_today P ed) ?ds"
  have rows: "rows \<noteq> []" using ne by auto
  have d: "derive_trade_window_from_prices P c sd ed = derive_from_own P sd ed ?ds"
    using hist rows by (simp add: derive_trade_window_from_prices_def)
  have all: "\<forall>d \<in> set ?ds. sd \<le> d"
    using sorted_hd_le [OF trade_dates_sorted] late by fastforce
  then have sc: "filter (\<lambda>d. sd \<le> d) ?ds = ?ds" by simp
  show ?thesis
  proof (cases "\<exists>d \<in> set ?ds. d \<le> end_or_today P ed")
    case False
    then have "?ec = []" by (auto simp: filter_empty_conv)
    then show ?thesis using False ne d sc by (simp add: derive_from_own_def Let_def)
  next
    case True
    then have ec: "?ec \<noteq> []" by (auto simp: filter_empty_conv)
    define e where "e = (if ed = None \<and> last ?ec = today_str P \<and> 2 \<le> length ?ec
                        then ?ec ! (length ?ec - 2) else last ?ec)"
    have "last ?ec \<in> set ?ec"
      using ec by (rule last_in_set)
    moreover have "2 \<le> length ?ec \<Longrightarrow> ?ec ! (length ?ec - 2) \<in> set ?ec"
      by (intro nth_mem) simp
    ultimately have "e \<in> set ?ec"
      unfolding e_def by (simp only: split: if_split) blast
    then have "e \<in> set ?ds" by auto
    then have le: "hd ?ds \<le> e" using sorted_hd_le [OF trade_dates_sorted] by simp
    then have "derive_from_own P sd ed ?ds = Inr (hd ?ds, e)"
      using ne ec sc by (simp add: derive_from_own_def Let_def e_def)
    then show ?thesis using True le d by auto
  qed
qed


text \<open>
  C6. With \<open>end_date\<close> absent, when the fetched window (the stock's own history, or
  the reference stock's on the fallback path) has at least two trading days up to
  today, every window that \<open>derive_trade_window_from_prices\<close> returns ends strictly
  before today.
\<close>

theorem derive_default_end_before_today:
  assumes "derive_trade_window_from_prices P c sd None = Inr (s, e)"
    and "2 \<le> length (filter (\<lambda>d. d \<le> today_str P) (window_dates P c sd None))"
  shows "e < today_str P"
proof (cases "get_hist_unadjusted_range P c sd None")
  case (Inl x)
  then show ?thesis using assms(1) by (simp add: derive_trade_window_from_prices_def)
next
  case (Inr df)
  let ?fb = "fallback_dates P fallback_symbols sd None"
  show ?thesis
  proof (cases "df = None \<or> df = Some []")
    case True
    then have w: "window_dates P c sd None = ?fb"
      using Inr by (auto simp: window_dates_def)
    have "derive_from_calendar P sd None ?fb = Inr (s, e)"
      using assms(1) Inr True by (auto simp: derive_trade_window_from_prices_def)
    then obtain e' where "get_default_end_trade_date P ?fb = Inr e'" "e' = e"
      by (auto simp: derive_from_calendar_def truthy_def bind_err_def
          split: if_splits sum.splits)
    then show ?thesis
      using default_end_before_today [of ?fb P e] fallback_dates_sorted [of P fallback_symbols sd None]
        assms(2) w by simp
  next
    case False
    then obtain rows where r: "df = Some rows" "rows \<noteq> []" by (cases df) auto
    then have w: "window_dates P c sd None = trade_dates rows"
      using Inr by (auto simp: window_dates_def)
    have "derive_from_own P sd None (trade_dates rows) = Inr (s, e)"
      using assms(1) Inr r by (auto simp: derive_trade_window_from_prices_def)
    then show ?thesis
      using own_end_before_today [of "trade_dates rows" P sd s e] assms(2) w
      by (simp add: trade_dates_sorted trade_dates_distinct)
  qed
qed


theorem derive_start_is_first_trading_day_witness:
  "\<exists>e. derive_trade_window_from_prices listed_provider ''001220'' ''2019-01-01'' None =
         Inr (''2024-01-03'', e) \<and> ''2024-01-03'' \<le> e"
  using derive_start_is_first_trading_day [OF listed_hist]
  by (simp add: listed_dates end_or_today_def listed_today)

theorem derive_default_end_before_today_witness:
  "''2024-01-04'' < today_str listed_provider \<and> ''2024-01-03'' < today_str listed_provider"
proof -
  have own: "2 \<le> length (filter (\<lambda>d. d \<le> today_str listed_provider)
      (window_dates listed_provider ''001220'' ''2019-01-01'' None))"
    by (simp add: window_dates_def listed_hist listed_dates listed_today)
  have fb: "2 \<le> length (filter (\<lambda>d. d \<le> today_str listed_provider)
      (window_dates listed_provider ''600999'' ''2019-01-01'' None))"
    by (simp add: window_dates_def fb_hist fb_dates listed_today)
  show ?thesis
    by (rule conjI [OF derive_default_end_before_today [OF listed_derive own]
          derive_default_end_before_today [OF fb_derive fb]])
qed

section \<open>Calendar days between two trade dates\<close>

text \<open>
  \<^verbatim>\<open>datetime.strptime(s, "%Y-%m-%d")\<close>: four digits, a dash, a month, a dash, a day and
  nothing else; the month is \<^verbatim>\<open>1[0-2]|0[1-9]|[1-9]\<close>, the day
  \<^verbatim>\<open>3[01]|[12]\d|0[1-9]|[1-9]| [1-9]\<close>, and the three numbers must be a date of the
  Gregorian calendar from year 1 on. Anything else raises \<^verbatim>\<open>ValueError\<close>.
\<close>

definition is_dig :: "char \<Rightarrow> bool" where
  "is_dig ch = (CHR ''0'' \<le> ch \<and> ch \<le> CHR ''9'')"

definition dig :: "char \<Rightarrow> nat" where
  "dig ch = of_char ch - 48"

definition month_token :: "string \<Rightarrow> nat option" where
  "month_token t =
     (case t of
        [a] \<Rightarrow> if is_dig a \<and> a \<noteq> CHR ''0'' then Some (dig a) else None
      | [a, b] \<Rightarrow>
          if a = CHR ''1'' \<and> is_dig b \<and> b \<le> CHR ''2'' then Some (10 + dig b)
          else if a = CHR ''0'' \<and> is_dig b \<and> b \<noteq> CHR ''0'' then Some (dig b)
          else None
      | _ \<Rightarrow> None)"

definition day_token :: "string \<Rightarrow> nat option" where
  "day_token t =
     (case t of
        [a] \<Rightarrow> if is_dig a \<and> a \<noteq> CHR ''0'' then Some (dig a) else None
      | [a, b] \<Rightarrow>
          if a = CHR ''3'' \<and> is_dig b \<and> b \<le> CHR ''1'' then Some (30 + dig b)
          else if (a = CHR ''1'' \<or> a = CHR ''2'') \<and> is_dig b then Some (10 * dig a + dig b)
          else if (a = CHR ''0'' \<or> a = CHR '' '') \<and> is_dig b \<and> b \<noteq> CHR ''0'' then Some (dig b)
          else None
      | _ \<Rightarrow> None)"

definition is_leap :: "nat \<Rightarrow> bool" where
  "is_leap y = (y mod 4 = 0 \<and> (y mod 100 \<noteq> 0 \<or> y mod 400 = 0))"

definition days_in_month :: "nat \<Rightarrow> nat \<Rightarrow> nat" where
  "days_in_month y m =
     (if m = 2 then (if is_leap y then 29 else 28)
      else if m = 4 \<or> m = 6 \<or> m = 9 \<or> m = 11 then 30 else 31)"

definition days_before_year :: "nat \<Rightarrow> nat" where
  "days_before_year y = (y - 1) * 365 + (y - 1) div 4 - (y - 1) div 100 + (y - 1) div 400"

definition days_before_month :: "nat \<Rightarrow> nat \<Rightarrow> nat" where
  "days_before_month y m =
     [0, 0, 31, 59, 90, 120, 151, 181, 212, 243, 273, 304, 334] ! m
     + (if 2 < m \<and> is_leap y then 1 else 0)"

text \<open>The ordinal of a date, as \<^verbatim>\<open>date.toordinal()\<close>: 1 for 0001-01-01.\<close>

definition ymd2ord :: "nat \<Rightarrow> nat \<Rightarrow> nat \<Rightarrow> nat" where
  "ymd2ord y m d = days_before_year y + days_before_month y m + d"

definition strptime_ymd :: "string \<Rightarrow> error + nat" where
  "strptime_ymd s =
     (case s of
        y1 # y2 # y3 # y4 # dash # rest \<Rightarrow>
          if is_dig y1 \<and> is_dig y2 \<and> is_dig y3 \<and> is_dig y4 \<and> dash = CHR ''-''
          then
            (let y = 1000 * dig y1 + 100 * dig y2 + 10 * dig y3 + dig y4;
                 mt = takeWhile (\<lambda>ch. ch \<noteq> CHR ''-'') rest;
                 dt = drop (Suc (length mt)) rest
             in if length mt < length rest then
                  (case (month_token mt, day_token dt) of
                     (Some m, Some d) \<Rightarrow>
                       if 1 \<le> y \<and> d \<le> days_in_month y m then Inr (ymd2ord y m d)
                       else Inl (ValueError ''day is out of range for month'')
                   | _ \<Rightarrow> Inl (ValueError ''time data does not match format''))
                else Inl (ValueError ''time data does not match format''))
          else Inl (ValueError ''time data does not match format'')
      | _ \<Rightarrow> Inl (ValueError ''time data does not match format''))"

text \<open>\<^verbatim>\<open>(strptime(e) - strptime(s)).days\<close>; the end date is parsed first.\<close>

definition calendar_days :: "string \<Rightarrow> string \<Rightarrow> error + int" where
  "calendar_days e s =
     bind_err (strptime_ymd e) (\<lambda>oe.
     bind_err (strptime_ymd s) (\<lambda>os. Inr (int oe - int os)))"

lemmas date_eval = calendar_days_def strptime_ymd_def month_token_def day_token_def is_dig_def
  dig_def days_in_month_def is_leap_def ymd2ord_def days_before_year_def days_before_month_def

lemma calendar_days_example_year:
  "calendar_days ''2024-01-04'' ''2023-01-04'' = Inr 365"
  by (simp add: date_eval)

lemma calendar_days_example_leap:
  "calendar_days ''2024-03-01'' ''2024-02-28'' = Inr 2"
  by (simp add: date_eval)

lemma calendar_days_same: "calendar_days d d = Inr n \<Longrightarrow> n = 0"
  by (auto simp: calendar_days_def bind_err_def split: sum.splits)

section \<open>Output rows: the command line and the desktop computation\<close>

text \<open>
  A row is a Python dictionary; a key that is missing and a key whose value is \<^verbatim>\<open>None\<close>
  are both read as absent (\<^verbatim>\<open>row.get(key)\<close> is \<^verbatim>\<open>None\<close>), here \<open>None\<close>.
\<close>

record row =
  row_name :: string
  row_code :: string
  row_start_trade_date :: "string option"
  row_end_trade_date :: "string option"
  row_start_close :: "pyfloat option"
  row_end_close :: "pyfloat option"
  row_div_sum_per_share :: "pyfloat option"
  row_div_event_count :: "int option"
  row_additional_shares_per_share :: "pyfloat option"
  row_additional_event_count :: "int option"
  row_additional_value_per_share :: "pyfloat option"
  row_bonus_allot_desc :: "string option"
  row_total_return :: "pyfloat option"
  row_annualized_return :: "pyfloat option"
  row_error :: "string option"

text \<open>\<^verbatim>\<open>str(e)\<close>, the text of an exception.\<close>

fun str :: "error \<Rightarrow> string" where
  "str (ValueError m) = m"
| "str (RuntimeError m) = m"
| "str (ProviderError m) = m"
| "str IndexError = ''list index out of range''"
| "str ZeroDivisionError = ''float division by zero''"
| "str OverflowError = ''(34, Numerical result out of range)''"
| "str (TypeError m) = m"

text \<open>\<open>as_dict\<close> has the twelve keys of the result; \<open>name\<close> is set by the caller.\<close>

definition as_dict :: "IntervalResult \<Rightarrow> row" where
  "as_dict r =
     \<lparr>row_name = [], row_code = code r,
      row_start_trade_date = Some (start_trade_date r),
      row_end_trade_date = Some (end_trade_date r),
      row_start_close = Some (start_close r), row_end_close = Some (end_close r),
      row_div_sum_per_share = Some (dividend_sum_per_share r),
      row_div_event_count = Some (dividend_event_count r),
      row_additional_shares_per_share = Some (additional_shares_per_share r),
      row_additional_event_count = Some (additional_event_count r),
      row_additional_value_per_share = Some (additional_value_per_share r),
      row_bonus_allot_desc = Some (bonus_allot_desc r),
      row_total_return = Some (total_return r),
      row_annualized_return = None, row_error = None\<rparr>"

text \<open>
  The annualized return of both paths:
  \<^verbatim>\<open>(1.0 + total_return) ** (365.0 / days) - 1.0\<close> inside a \<^verbatim>\<open>try\<close> whose handler yields
  \<^verbatim>\<open>None\<close>. \<open>float_pow\<close> is the provider's \<^verbatim>\<open>**\<close> on floats, which raises
  \<^verbatim>\<open>OverflowError\<close> when the result is out of range.
\<close>

definition power_annualized :: "provider \<Rightarrow> pyfloat \<Rightarrow> int \<Rightarrow> pyfloat option" where
  "power_annualized P tr days =
     (case bind_err (fdiv 365 (rnd (of_int days))) (\<lambda>x. float_pow P (fadd 1 tr) x) of
        Inl x \<Rightarrow> None
      | Inr p \<Rightarrow> Some (fsub p 1))"

definition cli_annualized :: "provider \<Rightarrow> string \<Rightarrow> string \<Rightarrow> pyfloat option \<Rightarrow> pyfloat option" where
  "cli_annualized P s e tro =
     (case calendar_days e s of
        Inl x \<Rightarrow> None
      | Inr days \<Rightarrow>
          (case tro of
             None \<Rightarrow> None
           | Some tr \<Rightarrow> if days \<noteq> 0 \<and> 0 < days then power_annualized P tr days else None))"

definition gui_annualized :: "provider \<Rightarrow> string \<Rightarrow> string \<Rightarrow> pyfloat \<Rightarrow> pyfloat option" where
  "gui_annualized P s e tr =
     (case calendar_days e s of
        Inl x \<Rightarrow> None
      | Inr days \<Rightarrow> if days \<noteq> 0 \<and> 0 < days then power_annualized P tr days else None)"

subsection \<open>The command-line batch (cli.py)\<close>

definition cli_error_row :: "string \<Rightarrow> string \<Rightarrow> string option \<Rightarrow> string option \<Rightarrow> error \<Rightarrow> row" where
  "cli_error_row nm c s e x =
     \<lparr>row_name = nm, row_code = c, row_start_trade_date = s, row_end_trade_date = e,
      row_start_close = None, row_end_close = None,
      row_div_sum_per_share = None, row_div_event_count = None,
      row_additional_shares_per_share = None, row_additional_event_count = None,
      row_additional_value_per_share = None, row_bonus_allot_desc = None,
      row_total_return = None, row_annualized_return = None, row_error = Some (str x)\<rparr>"

text \<open>The second call of the additional-share lookup, whose failure yields \<^verbatim>\<open>(0.0, 0, "")\<close>.\<close>

definition compute_additional_and_desc ::
  "provider \<Rightarrow> string \<Rightarrow> string \<Rightarrow> string \<Rightarrow> pyfloat \<times> int \<times> string" where
  "compute_additional_and_desc P c s e =
     (case sum_additional_shares_in_interval P c s e of
        Inl x \<Rightarrow> (0, 0, [])
      | Inr t \<Rightarrow> t)"

definition recomputed_total_return :: "IntervalResult \<Rightarrow> pyfloat \<Rightarrow> error + pyfloat" where
  "recomputed_total_return res add_shares =
     fdiv (fsub (fadd (fadd (end_close res) (dividend_sum_per_share res))
                      (fmul (end_close res) add_shares))
                (start_close res))
          (start_close res)"

definition cli_row :: "provider \<Rightarrow> string \<Rightarrow> string option \<Rightarrow> string \<Rightarrow> row" where
  "cli_row P sd ed c =
     (let nm = get_stock_name P c in
      case derive_trade_window_from_prices P c sd ed of
        Inl x \<Rightarrow> cli_error_row nm c None None x
      | Inr (s, e) \<Rightarrow>
          (case compute_interval_total_return P c s e of
             Inl x \<Rightarrow> cli_error_row nm c (Some s) (Some e) x
           | Inr res \<Rightarrow>
               (let (add_shares, add_count, add_desc) = compute_additional_and_desc P c s e;
                    tr = (case recomputed_total_return res add_shares of
                            Inl x \<Rightarrow> total_return res
                          | Inr t \<Rightarrow> t);
                    annualized = cli_annualized P s e (Some tr)
                in (as_dict res)
                     \<lparr>row_name := nm, row_code := c,
                      row_additional_shares_per_share := Some add_shares,
                      row_additional_event_count := Some add_count,
                      row_additional_value_per_share := Some (fmul (end_close res) add_shares),
                      row_bonus_allot_desc := Some add_desc,
                      row_total_return := Some tr,
                      row_annualized_return := annualized\<rparr>)))"

text \<open>
  The console summary joins eleven texts of a row with commas. Every row of the loop has
  the keys \<open>start_trade_date\<close> and \<open>end_trade_date\<close>, so that
  \<^verbatim>\<open>r.get("start_trade_date", "")\<close> is the stored value, \<^verbatim>\<open>None\<close> included, and
  \<^verbatim>\<open>",".join(line)\<close> raises \<^verbatim>\<open>TypeError\<close> on it. The name is a text, the numbers are
  formatted or replaced by the empty text, and \<open>bonus_allot_desc\<close> and \<open>error\<close> are a
  text or, when the key is missing, the default \<^verbatim>\<open>""\<close>.
\<close>

definition summary_line :: "row \<Rightarrow> error + unit" where
  "summary_line r =
     (if row_start_trade_date r = None
      then Inl (TypeError ''sequence item 1: expected str instance, NoneType found'')
      else if row_end_trade_date r = None
      then Inl (TypeError ''sequence item 2: expected str instance, NoneType found'')
      else Inr ())"

fun console_summary :: "row list \<Rightarrow> error + unit" where
  "console_summary [] = Inr ()"
| "console_summary (r # rs) = bind_err (summary_line r) (\<lambda>u. console_summary rs)"

text \<open>
  \<^verbatim>\<open>run\<close> for a loaded configuration (the stock codes, \<open>start_date\<close>, \<open>end_date\<close>): the loop
  over the stocks, then the console summary, which is outside every \<^verbatim>\<open>try\<close>, then the
  rows. The text printed and the CSV file are not part of the model.
\<close>

definition run :: "provider \<Rightarrow> string list \<Rightarrow> string \<Rightarrow> string option \<Rightarrow> error + row list" where
  "run P stocks sd ed =
     (if stocks = []
      then Inl (ValueError
        ''No stocks configured. Please add at least one stock code in config.yaml.'')
      else let rows = map (\<lambda>c0. cli_row P sd ed (zfill 6 c0)) stocks
           in bind_err (console_summary rows) (\<lambda>u. Inr rows))"

subsection \<open>The desktop computation (gui\_app.py)\<close>

definition lower_ascii :: "string \<Rightarrow> string" where
  "lower_ascii s =
     map (\<lambda>ch. if CHR ''A'' \<le> ch \<and> ch \<le> CHR ''Z'' then char_of (of_char ch + (32::nat)) else ch) s"

text \<open>
  \<open>resolve_to_code\<close> over the dictionary as an association list in insertion order:
  digits, then the exact name, then the name without regard to case, then the first
  name that contains the input or is contained in it.
\<close>

definition resolve_to_code :: "string \<Rightarrow> (string \<times> string) list \<Rightarrow> string option" where
  "resolve_to_code text n2c =
     (let s = strip text in
      if s = [] then None
      else if isdigit s \<and> length s \<le> 6 then Some (zfill 6 s)
      else case (case map_of n2c s of None \<Rightarrow> None | Some c \<Rightarrow> if c = [] then None else Some c) of
             Some c \<Rightarrow> Some c
           | None \<Rightarrow>
               (case find (\<lambda>(k, v). lower_ascii k = lower_ascii s) n2c of
                  Some (k, v) \<Rightarrow> Some v
                | None \<Rightarrow>
                    (case filter (\<lambda>(k, v). contains s k \<or> contains k s) n2c of
                       [] \<Rightarrow> None
                     | (k, v) # _ \<Rightarrow> Some v)))"

definition unresolved_row :: "string \<Rightarrow> row" where
  "unresolved_row s =
     \<lparr>row_name = s, row_code = [], row_start_trade_date = None, row_end_trade_date = None,
      row_start_close = None, row_end_close = None,
      row_div_sum_per_share = None, row_div_event_count = None,
      row_additional_shares_per_share = None, row_additional_event_count = None,
      row_additional_value_per_share = None, row_bonus_allot_desc = Some [],
      row_total_return = None, row_annualized_return = None,
      row_error = Some ''Unknown stock name or code''\<rparr>"

definition gui_error_row :: "string \<Rightarrow> string \<Rightarrow> error \<Rightarrow> row" where
  "gui_error_row nm c x =
     \<lparr>row_name = nm, row_code = c, row_start_trade_date = None, row_end_trade_date = None,
      row_start_close = None, row_end_close = None,
      row_div_sum_per_share = None, row_div_event_count = None,
      row_additional_shares_per_share = None, row_additional_event_count = None,
      row_additional_value_per_share = None, row_bonus_allot_desc = Some [],
      row_total_return = None, row_annualized_return = None, row_error = Some (str x)\<rparr>"

definition gui_row :: "provider \<Rightarrow> string \<Rightarrow> string option \<Rightarrow> string \<Rightarrow> row" where
  "gui_row P sd ed c =
     (let nm = get_stock_name P c in
      case derive_trade_window_from_prices P c sd ed of
        Inl x \<Rightarrow> gui_error_row nm c x
      | Inr (s, e) \<Rightarrow>
          (case compute_interval_total_return P c s e of
             Inl x \<Rightarrow> gui_error_row nm c x
           | Inr res \<Rightarrow>
               (let (add_shares, add_count, add_desc) = compute_additional_and_desc P c s e;
                    add_value = fmul (end_close res) add_shares
                in case recomputed_total_return res add_shares of
                     Inl x \<Rightarrow> gui_error_row nm c x
                   | Inr tr \<Rightarrow>
                       (as_dict res)
                         \<lparr>row_name := nm, row_code := c,
                          row_additional_shares_per_share := Some add_shares,
                          row_additional_event_count := Some add_count,
                          row_additional_value_per_share := Some add_value,
                          row_bonus_allot_desc := Some add_desc,
                          row_total_return := Some tr,
                          row_annualized_return := gui_annualized P s e tr\<rparr>)))"

definition compute_for_codes :: "provider \<Rightarrow> string list \<Rightarrow> string \<Rightarrow> string option \<Rightarrow> row list" where
  "compute_for_codes P codes sd ed =
     (let items = map (\<lambda>item. (resolve_to_code (strip item) (name_to_code P), strip item)) codes;
          normalized = List.map_filter
            (\<lambda>(rc, s). case rc of None \<Rightarrow> None | Some c \<Rightarrow> if c = [] then None else Some (c, s)) items;
          unresolved_items = List.map_filter
            (\<lambda>(rc, s). case rc of None \<Rightarrow> Some s | Some c \<Rightarrow> if c = [] then Some s else None) items
      in map unresolved_row unresolved_items @ map (\<lambda>(c, input_label). gui_row P sd ed c) normalized)"

subsection \<open>The cross-path comparison (\_compare\_gui\_cli.py)\<close>

text \<open>
  \<^verbatim>\<open>approx_equal(a, b, tol=1e-6)\<close>: both absent is equal, one absent is a difference,
  otherwise \<^verbatim>\<open>abs(float(a) - float(b)) <= tol\<close>.
\<close>

definition approx_equal_opt :: "pyfloat option \<Rightarrow> pyfloat option \<Rightarrow> bool" where
  "approx_equal_opt a b =
     (case (a, b) of
        (None, None) \<Rightarrow> True
      | (None, Some y) \<Rightarrow> False
      | (Some x, None) \<Rightarrow> False
      | (Some x, Some y) \<Rightarrow> \<bar>fsub x y\<bar> \<le> flit (1 / 10 ^ 6))"

text \<open>The fields that \<open>compare_rows\<close> reports as different for one code, in its order.\<close>

definition field_diffs :: "row \<Rightarrow> row \<Rightarrow> string list" where
  "field_diffs g c =
     (if row_start_trade_date g = row_start_trade_date c then [] else [''start_trade_date''])
     @ (if row_end_trade_date g = row_end_trade_date c then [] else [''end_trade_date''])
     @ (if approx_equal_opt (row_start_close g) (row_start_close c) then [] else [''start_close''])
     @ (if approx_equal_opt (row_end_close g) (row_end_close c) then [] else [''end_close''])
     @ (if approx_equal_opt (row_div_sum_per_share g) (row_div_sum_per_share c)
        then [] else [''div_sum_per_share''])
     @ (if approx_equal_opt (map_option float_of_int (row_div_event_count g))
             (map_option float_of_int (row_div_event_count c))
        then [] else [''div_event_count''])
     @ (if approx_equal_opt (row_additional_shares_per_share g) (row_additional_shares_per_share c)
        then [] else [''additional_shares_per_share''])
     @ (if approx_equal_opt (map_option float_of_int (row_additional_event_count g))
             (map_option float_of_int (row_additional_event_count c))
        then [] else [''additional_event_count''])
     @ (if approx_equal_opt (row_additional_value_per_share g) (row_additional_value_per_share c)
        then [] else [''additional_value_per_share''])
     @ (if approx_equal_opt (row_total_return g) (row_total_return c) then [] else [''total_return''])
     @ (if approx_equal_opt (row_annualized_return g) (row_annualized_return c)
        then [] else [''annualized_return''])
     @ (if row_bonus_allot_desc g = row_bonus_allot_desc c then [] else [''bonus_allot_desc''])
     @ (if row_error g = row_error c then [] else [''error''])"

section \<open>The web application (web\_app.py)\<close>

record form =
  stocks_field :: string
  start_date_field :: string
  end_date_field :: string

record globals =
  LAST_ROWS :: "row list"

text \<open>
  A response: a redirect to the index with a flashed message, the index rendered with
  the rows, or a CSV download, of which the model keeps each row with its two percent
  columns.
\<close>

datatype response =
    Redirect string
  | Render "row list" string string
  | Download "(row \<times> pyfloat option \<times> pyfloat option) list"

text \<open>The full-width comma, as its three UTF-8 bytes.\<close>

definition fw_comma :: string where
  "fw_comma = [CHR 0xEF, CHR 0xBC, CHR 0x8C]"

fun replace_all :: "string \<Rightarrow> string \<Rightarrow> string \<Rightarrow> string" where
  "replace_all old new [] = []"
| "replace_all old new (ch # s) =
     (if old = [] then ch # s
      else case strip_prefix old (ch # s) of
             Some rest \<Rightarrow> new @ replace_all old new (drop (length old - 1) s)
           | None \<Rightarrow> ch # replace_all old new s)"

fun split_on :: "char \<Rightarrow> string \<Rightarrow> string \<Rightarrow> string list" where
  "split_on sep cur [] = [rev cur]"
| "split_on sep cur (ch # s) =
     (if ch = sep then rev cur # split_on sep [] s else split_on sep (ch # cur) s)"

definition parse_codes_input :: "string \<Rightarrow> string list" where
  "parse_codes_input text =
     filter (\<lambda>p. p \<noteq> [])
       (map strip (split_on CHR '','' []
          (replace_all '' '' '','' (replace_all fw_comma '','' text))))"

text \<open>
  \<^verbatim>\<open>POST /calculate\<close>. \<open>compute\<close> stands for the call of \<^verbatim>\<open>compute_for_codes\<close> inside the
  handler's \<^verbatim>\<open>try\<close>, with the exception it may raise.
\<close>

definition calculate ::
  "(string list \<Rightarrow> string \<Rightarrow> string option \<Rightarrow> error + row list) \<Rightarrow> globals \<Rightarrow> form
     \<Rightarrow> response \<times> globals" where
  "calculate compute G f =
     (let stocks_text = strip (stocks_field f);
          start_date = strip (start_date_field f);
          end_date = (if strip (end_date_field f) = [] then None else Some (strip (end_date_field f)))
      in if stocks_text = []
         then (Redirect ''Please enter at least one stock name or 6-digit code.'', G)
         else if start_date = []
         then (Redirect ''Please enter a start date (YYYY-MM-DD).'', G)
         else case compute (parse_codes_input stocks_text) start_date end_date of
                Inl x \<Rightarrow> (Redirect (''Error computing results: '' @ str x), G)
              | Inr rows \<Rightarrow>
                  (Render rows start_date (case end_date of None \<Rightarrow> [] | Some e \<Rightarrow> e),
                   G\<lparr>LAST_ROWS := rows\<rparr>))"

definition csv_row :: "row \<Rightarrow> row \<times> pyfloat option \<times> pyfloat option" where
  "csv_row r =
     (r, map_option (\<lambda>v. fmul v 100) (row_total_return r),
         map_option (\<lambda>v. fmul v 100) (row_annualized_return r))"

text \<open>\<^verbatim>\<open>GET /export\<close>.\<close>

definition export :: "globals \<Rightarrow> response" where
  "export G =
     (if LAST_ROWS G = [] then Redirect ''No results to export. Please calculate first.''
      else Download (map csv_row (LAST_ROWS G)))"

text \<open>The handler as the application runs it, on the desktop computation.\<close>

definition calculate_app :: "provider \<Rightarrow> globals \<Rightarrow> form \<Rightarrow> response \<times> globals" where
  "calculate_app P G f = calculate (\<lambda>codes sd ed. Inr (compute_for_codes P codes sd ed)) G f"

section \<open>Properties of the rows\<close>

definition numerics_present :: "row \<Rightarrow> bool" where
  "numerics_present r =
     (row_start_close r \<noteq> None \<and> row_end_close r \<noteq> None
      \<and> row_div_sum_per_share r \<noteq> None \<and> row_div_event_count r \<noteq> None
      \<and> row_additional_shares_per_share r \<noteq> None \<and> row_additional_event_count r \<noteq> None
      \<and> row_additional_value_per_share r \<noteq> None \<and> row_total_return r \<noteq> None)"

definition numerics_absent :: "row \<Rightarrow> bool" where
  "numerics_absent r =
     (row_start_close r = None \<and> row_end_close r = None
      \<and> row_div_sum_per_share r = None \<and> row_div_event_count r = None
      \<and> row_additional_shares_per_share r = None \<and> row_additional_event_count r = None
      \<and> row_additional_value_per_share r = None \<and> row_total_return r = None
      \<and> row_annualized_return r = None)"

definition row_ok :: "row \<Rightarrow> bool" where
  "row_ok r = ((row_error r = None \<and> numerics_present r) \<or> (row_error r \<noteq> None \<and> numerics_absent r))"

lemma compute_result_fields:
  assumes "compute_interval_total_return P c s e = Inr res"
  shows "sum_additional_shares_in_interval P c s e =
           Inr (additional_shares_per_share res, additional_event_count res, bonus_allot_desc res)
       \<and> recomputed_total_return res (additional_shares_per_share res) = Inr (total_return res)
       \<and> additional_value_per_share res = fmul (end_close res) (additional_shares_per_share res)
       \<and> code res = c \<and> start_trade_date res = s \<and> end_trade_date res = e"
  using assms
  by (auto simp: compute_interval_total_return_def bind_err_def Let_def split_beta
      recomputed_total_return_def split: sum.splits)

lemma annualized_same: "cli_annualized P s e (Some tr) = gui_annualized P s e tr"
  by (simp add: cli_annualized_def gui_annualized_def split: sum.splits)

lemma cli_row_success:
  assumes "derive_trade_window_from_prices P c sd ed = Inr (s, e)"
    and "compute_interval_total_return P c s e = Inr res"
  shows "cli_row P sd ed c =
     (as_dict res)\<lparr>row_name := get_stock_name P c,
        row_annualized_return := gui_annualized P s e (total_return res)\<rparr>"
proof -
  note f = compute_result_fields [OF assms(2)]
  have a: "compute_additional_and_desc P c s e =
      (additional_shares_per_share res, additional_event_count res, bonus_allot_desc res)"
    using f by (simp add: compute_additional_and_desc_def)
  have t: "recomputed_total_return res (additional_shares_per_share res) = Inr (total_return res)"
    using f by simp
  show ?thesis
    using f by (simp add: cli_row_def assms a t annualized_same as_dict_def Let_def)
qed

lemma gui_row_success:
  assumes "derive_trade_window_from_prices P c sd ed = Inr (s, e)"
    and "compute_interval_total_return P c s e = Inr res"
  shows "gui_row P sd ed c =
     (as_dict res)\<lparr>row_name := get_stock_name P c,
        row_annualized_return := gui_annualized P s e (total_return res)\<rparr>"
proof -
  note f = compute_result_fields [OF assms(2)]
  have a: "compute_additional_and_desc P c s e =
      (additional_shares_per_share res, additional_event_count res, bonus_allot_desc res)"
    using f by (simp add: compute_additional_and_desc_def)
  have t: "recomputed_total_return res (additional_shares_per_share res) = Inr (total_return res)"
    using f by simp
  show ?thesis
    using f by (simp add: gui_row_def assms a t as_dict_def Let_def)
qed

lemma tolerance6_nonneg: "0 \<le> flit (1 / 10 ^ 6)"
  by (simp add: flit_def rnd_nonneg)

lemma approx_equal_opt_same: "approx_equal_opt a a"
  using tolerance6_nonneg by (cases a) (simp_all add: approx_equal_opt_def fsub_def)

lemma field_diffs_same: "field_diffs r r = []"
  by (simp add: field_diffs_def approx_equal_opt_same)

lemma field_diffs_error_rows:
  "field_diffs (gui_error_row nm c x) (cli_error_row nm c so eo x) =
     (if so = None then [] else [''start_trade_date''])
     @ (if eo = None then [] else [''end_trade_date'']) @ [''bonus_allot_desc'']"
  by (auto simp: field_diffs_def gui_error_row_def cli_error_row_def approx_equal_opt_def)

lemma cli_row_ok: "row_ok (cli_row P sd ed c)"
proof (cases "derive_trade_window_from_prices P c sd ed")
  case (Inl x)
  then show ?thesis
    by (simp add: cli_row_def cli_error_row_def row_ok_def numerics_absent_def)
next
  case (Inr w)
  obtain s e where w: "w = (s, e)" by (cases w)
  show ?thesis
  proof (cases "compute_interval_total_return P c s e")
    case (Inl x)
    then show ?thesis using Inr w
      by (simp add: cli_row_def cli_error_row_def row_ok_def numerics_absent_def)
  next
    case (Inr res)
    have d: "derive_trade_window_from_prices P c sd ed = Inr (s, e)"
      using \<open>derive_trade_window_from_prices P c sd ed = Inr w\<close> w by simp
    show ?thesis
      by (simp add: cli_row_success [OF d Inr] as_dict_def row_ok_def numerics_present_def)
  qed
qed

lemma gui_row_ok: "row_ok (gui_row P sd ed c)"
proof (cases "derive_trade_window_from_prices P c sd ed")
  case (Inl x)
  then show ?thesis
    by (simp add: gui_row_def gui_error_row_def row_ok_def numerics_absent_def)
next
  case (Inr w)
  obtain s e where w: "w = (s, e)" by (cases w)
  show ?thesis
  proof (cases "compute_interval_total_return P c s e")
    case (Inl x)
    then show ?thesis using Inr w
      by (simp add: gui_row_def gui_error_row_def row_ok_def numerics_absent_def)
  next
    case (Inr res)
    have d: "derive_trade_window_from_prices P c sd ed = Inr (s, e)"
      using \<open>derive_trade_window_from_prices P c sd ed = Inr w\<close> w by simp
    show ?thesis
      by (simp add: gui_row_success [OF d Inr] as_dict_def row_ok_def numerics_present_def)
  qed
qed

lemma unresolved_row_ok: "row_ok (unresolved_row s)"
  by (simp add: unresolved_row_def row_ok_def numerics_absent_def)

lemma compute_for_codes_ok: "r \<in> set (compute_for_codes P codes sd ed) \<Longrightarrow> row_ok r"
  by (auto simp: compute_for_codes_def Let_def gui_row_ok unresolved_row_ok)

lemma run_ok: "run P stocks sd ed = Inr rows \<Longrightarrow> r \<in> set rows \<Longrightarrow> row_ok r"
  by (auto simp: run_def Let_def bind_err_def cli_row_ok split: if_splits sum.splits)

lemma calculate_app_ok:
  "r \<in> set (LAST_ROWS (snd (calculate_app P G f))) \<Longrightarrow> r \<in> set (LAST_ROWS G) \<or> row_ok r"
  by (auto simp: calculate_app_def calculate_def Let_def compute_for_codes_ok split: if_splits)

lemma success_rows_agree:
  assumes "derive_trade_window_from_prices P c sd ed = Inr (s, e)"
    and "compute_interval_total_return P c s e = Inr res"
  shows "field_diffs (gui_row P sd ed c) (cli_row P sd ed c) = []"
  by (simp add: cli_row_success [OF assms] gui_row_success [OF assms] field_diffs_same)

section \<open>Example providers\<close>

definition failing_provider :: provider where
  "failing_provider =
     listed_provider\<lparr>get_unadjusted_close_on := (\<lambda>c d. Inl (ValueError ''No price data''))\<rparr>"

definition single_day_provider :: provider where
  "single_day_provider =
     listed_provider\<lparr>stock_zh_a_hist := (\<lambda>sy s e. Frame [Some ''2024-01-04'']),
                      get_unadjusted_close_on := (\<lambda>c d. Inr 10)\<rparr>"

text \<open>A provider whose price-history query raises for every symbol.\<close>

definition offline_provider :: provider where
  "offline_provider =
     listed_provider\<lparr>stock_zh_a_hist := (\<lambda>sy s e. Raises (ProviderError ''Connection aborted''))\<rparr>"



lemma literal_annualized:
  "gui_annualized literal_provider ''2023-01-03'' ''2024-01-03''
     (6665327448508333 / 18014398509481984) = Some (1666331862127083 / 4503599627370496)"
proof -
  have d: "calendar_days ''2024-01-03'' ''2023-01-03'' = Inr 365"
    by (simp add: date_eval)
  have q: "fdiv 365 (rnd 365) = Inr 1"
    by (simp add: fdiv_def rnd_eval)
  have p: "float_pow literal_provider x 1 = Inr x" for x
    by (simp add: literal_provider_def)
  have v: "fsub (fadd 1 (6665327448508333 / 18014398509481984)) 1 =
      1666331862127083 / 4503599627370496"
    by (simp add: fsub_def fadd_def rnd_eval)
  show ?thesis
    by (simp add: gui_annualized_def d power_annualized_def q p v)
qed

lemma failing_derive:
  "derive_trade_window_from_prices failing_provider ''001220'' ''2019-01-01'' None =
     Inr (''2024-01-03'', ''2024-01-04'')"
  by (simp add: derive_trade_window_from_prices_def get_hist_unadjusted_range_def symbol_eval
      failing_provider_def listed_provider_def trade_dates_def derive_from_own_def
      end_or_today_def)

lemma failing_compute:
  "compute_interval_total_return failing_provider ''001220'' ''2024-01-03'' ''2024-01-04'' =
     Inl (ValueError ''No price data'')"
  by (simp add: compute_interval_total_return_def failing_provider_def)

lemma offline_derive:
  "derive_trade_window_from_prices offline_provider ''001220'' ''2019-01-01'' None =
     Inl (ProviderError ''Connection aborted'')"
  by (simp add: derive_trade_window_from_prices_def get_hist_unadjusted_range_def symbol_eval
      offline_provider_def bind_err_def)

lemma strip_001220: "strip ''001220'' = ''001220''"
  by (simp add: strip_def is_space_def)

lemma resolve_001220: "resolve_to_code ''001220'' n2c = Some ''001220''"
  by (simp add: resolve_to_code_def symbol_eval)

lemma compute_for_001220:
  "compute_for_codes P [''001220''] sd ed = [gui_row P sd ed ''001220'']"
  by (simp add: compute_for_codes_def Let_def strip_001220 resolve_001220 List.map_filter_simps)

lemma single_derive:
  "derive_trade_window_from_prices single_day_provider ''001220'' ''2024-01-01'' None =
     Inr (''2024-01-04'', ''2024-01-04'')"
  by (simp add: derive_trade_window_from_prices_def get_hist_unadjusted_range_def symbol_eval
      single_day_provider_def listed_provider_def trade_dates_def derive_from_own_def
      end_or_today_def Let_def)

lemma single_compute:
  "compute_interval_total_return single_day_provider ''001220'' ''2024-01-04'' ''2024-01-04'' =
     Inr \<lparr>code = ''001220'', start_trade_date = ''2024-01-04'',
          end_trade_date = ''2024-01-04'', start_close = 10, end_close = 10,
          dividend_sum_per_share = 0, dividend_event_count = 0,
          additional_shares_per_share = 0, additional_event_count = 0,
          additional_value_per_share = 0, bonus_allot_desc = [],
          total_return = 0\<rparr>"
proof -
  have "rnd 10 = 10" by (simp add: rnd_eval)
  then show ?thesis
    by (simp add: compute_interval_total_return_def single_day_provider_def listed_provider_def
      sum_cash_dividends_in_interval_def fadd_def fmul_def fsub_def fdiv_def)
qed

lemma single_annualized:
  "gui_annualized single_day_provider ''2024-01-04'' ''2024-01-04'' 0 = None"
  by (simp add: gui_annualized_def date_eval)

definition end_date_of :: "form \<Rightarrow> string option" where
  "end_date_of f = (if strip (end_date_field f) = [] then None else Some (strip (end_date_field f)))"

lemma strip_nosuch: "strip ''nosuch'' = ''nosuch''"
  by (simp add: strip_def is_space_def)

lemma parse_codes_nosuch: "parse_codes_input ''nosuch'' = [''nosuch'']"
  by (simp add: parse_codes_input_def fw_comma_def strip_nosuch)

lemma resolve_nosuch: "resolve_to_code ''nosuch'' [] = None"
  by (simp add: resolve_to_code_def strip_nosuch isdigit_def)

lemma compute_nosuch:
  "compute_for_codes literal_provider [''nosuch''] sd ed = [unresolved_row ''nosuch'']"
  by (simp add: compute_for_codes_def Let_def strip_nosuch resolve_nosuch literal_provider_def)


section \<open>The claims about rows\<close>

text \<open>
  C3. The two paths do not produce identical rows for a stock whose computation fails.
  With a provider whose price lookup raises after the window of \<^verbatim>\<open>001220\<close> has been
  derived, \<open>compute_for_codes\<close> returns an error row without dates and with the empty
  \<open>bonus_allot_desc\<close>, \<open>run\<close> returns an error row with the derived dates and without
  \<open>bonus_allot_desc\<close>, and \<open>compare_rows\<close> reports \<open>start_trade_date\<close>, \<open>end_trade_date\<close>
  and \<open>bonus_allot_desc\<close>. With a provider whose price-history query raises, so that no
  window is derived, \<open>compute_for_codes\<close> returns an error row and \<open>run\<close> returns no rows:
  its console summary raises \<^verbatim>\<open>TypeError\<close> on the row's missing date.
\<close>

theorem paths_diverge_on_failure:
  "compute_for_codes failing_provider [''001220''] ''2019-01-01'' None
     = [gui_error_row ''001220'' ''001220'' (ValueError ''No price data'')]
   \<and> run failing_provider [''001220''] ''2019-01-01'' None
     = Inr [cli_error_row ''001220'' ''001220'' (Some ''2024-01-03'') (Some ''2024-01-04'')
              (ValueError ''No price data'')]
   \<and> field_diffs (gui_error_row ''001220'' ''001220'' (ValueError ''No price data''))
        (cli_error_row ''001220'' ''001220'' (Some ''2024-01-03'') (Some ''2024-01-04'')
           (ValueError ''No price data''))
     = [''start_trade_date'', ''end_trade_date'', ''bonus_allot_desc'']
   \<and> compute_for_codes offline_provider [''001220''] ''2019-01-01'' None
     = [gui_error_row ''001220'' ''001220'' (ProviderError ''Connection aborted'')]
   \<and> run offline_provider [''001220''] ''2019-01-01'' None
     = Inl (TypeError ''sequence item 1: expected str instance, NoneType found'')"
proof -
  have z: "zfill 6 ''001220'' = ''001220''" by (simp add: symbol_eval)
  have n: "get_stock_name failing_provider c = c" "get_stock_name offline_provider c = c" for c
    by (simp_all add: failing_provider_def offline_provider_def listed_provider_def)
  have g: "gui_row failing_provider ''2019-01-01'' None ''001220'' =
      gui_error_row ''001220'' ''001220'' (ValueError ''No price data'')"
    by (simp add: gui_row_def failing_derive failing_compute n)
  have c: "cli_row failing_provider ''2019-01-01'' None ''001220'' =
      cli_error_row ''001220'' ''001220'' (Some ''2024-01-03'') (Some ''2024-01-04'')
        (ValueError ''No price data'')"
    by (simp add: cli_row_def failing_derive failing_compute n)
  have go: "gui_row offline_provider ''2019-01-01'' None ''001220'' =
      gui_error_row ''001220'' ''001220'' (ProviderError ''Connection aborted'')"
    by (simp add: gui_row_def offline_derive n)
  have co: "cli_row offline_provider ''2019-01-01'' None ''001220'' =
      cli_error_row ''001220'' ''001220'' None None (ProviderError ''Connection aborted'')"
    by (simp add: cli_row_def offline_derive n)
  have r1: "run failing_provider [''001220''] ''2019-01-01'' None
     = Inr [cli_error_row ''001220'' ''001220'' (Some ''2024-01-03'') (Some ''2024-01-04'')
              (ValueError ''No price data'')]"
    by (simp add: run_def z c bind_err_def summary_line_def cli_error_row_def)
  have r2: "run offline_provider [''001220''] ''2019-01-01'' None
     = Inl (TypeError ''sequence item 1: expected str instance, NoneType found'')"
    by (simp add: run_def z co bind_err_def summary_line_def cli_error_row_def)
  show ?thesis
    unfolding compute_for_001220 g go r1 r2 field_diffs_error_rows
    by simp
qed





text \<open>
  C8 (as amended). Every row of the command line, of the desktop computation and of
  the web page satisfies exactly one of: \<open>error\<close> is absent and every numeric field
  other than \<open>annualized_return\<close> is present; or \<open>error\<close> is present and every numeric
  field, \<open>annualized_return\<close> included, is absent. (\<open>annualized_return\<close> of a row
  without error is absent when the interval has no positive number of days.)
\<close>


theorem row_invariant:
  "(\<forall>rows. run P stocks sd ed = Inr rows \<longrightarrow> (\<forall>r \<in> set rows. row_ok r))
   \<and> (\<forall>r \<in> set (compute_for_codes P codes sd ed). row_ok r)
   \<and> (\<forall>rows a b G'. calculate_app P G f = (Render rows a b, G') \<longrightarrow> (\<forall>r \<in> set rows. row_ok r))"
  by (auto simp: run_ok compute_for_codes_ok calculate_app_def calculate_def Let_def
      split: if_splits)

lemma resolve_600519: "resolve_to_code ''600519'' n2c = Some ''600519''"
  by (simp add: resolve_to_code_def symbol_eval)

lemma strip_600519: "strip ''600519'' = ''600519''"
  by (simp add: strip_def is_space_def)

lemma compute_two:
  "compute_for_codes literal_provider [''600519'', ''nosuch''] sd ed =
     [unresolved_row ''nosuch'', gui_row literal_provider sd ed ''600519'']"
proof -
  have n: "name_to_code literal_provider = []" by (simp add: literal_provider_def)
  show ?thesis
    by (simp add: compute_for_codes_def Let_def strip_nosuch strip_600519 n resolve_nosuch
        resolve_600519)
qed

theorem row_invariant_witness:
  "list_all row_ok (compute_for_codes literal_provider [''600519'', ''nosuch'']
     ''2023-01-01'' None)
   \<and> length (compute_for_codes literal_provider [''600519'', ''nosuch''] ''2023-01-01'' None) = 2"
  using row_invariant [of literal_provider "[]" "''2023-01-01''" None "[''600519'', ''nosuch'']"]
  by (simp add: list_all_iff compute_two)

theorem row_invariant_counterexample:
  "\<exists>r. run single_day_provider [''1220''] ''2024-01-01'' None = Inr [r]
       \<and> row_error r = None \<and> row_total_return r = Some 0 \<and> row_start_close r = Some 10
       \<and> row_annualized_return r = None"
proof -
  have z: "zfill 6 ''1220'' = ''001220''" by (simp add: symbol_eval)
  show ?thesis
    by (simp add: run_def z cli_row_success [OF single_derive single_compute] as_dict_def
        single_annualized summary_line_def bind_err_def)
qed

text \<open>
  C9. A \<^verbatim>\<open>POST /calculate\<close> whose stocks or start date is blank, or whose computation
  raises, answers with a redirect and leaves \<open>LAST_ROWS\<close> as it was, so that
  \<^verbatim>\<open>GET /export\<close> answers as before; a successful one stores its rows in \<open>LAST_ROWS\<close>.
  \<^verbatim>\<open>GET /export\<close> serves the rows of \<open>LAST_ROWS\<close> when there are any.
\<close>

theorem calculate_failure_keeps_last_rows:
  "(strip (stocks_field f) = [] \<or> strip (start_date_field f) = []
      \<or> (\<exists>x. compute (parse_codes_input (strip (stocks_field f))) (strip (start_date_field f))
                (end_date_of f) = Inl x)
     \<longrightarrow> snd (calculate compute G f) = G
         \<and> export (snd (calculate compute G f)) = export G
         \<and> (\<exists>msg. fst (calculate compute G f) = Redirect msg))
   \<and> (\<forall>rows. strip (stocks_field f) \<noteq> [] \<and> strip (start_date_field f) \<noteq> []
         \<and> compute (parse_codes_input (strip (stocks_field f))) (strip (start_date_field f))
              (end_date_of f) = Inr rows
     \<longrightarrow> LAST_ROWS (snd (calculate compute G f)) = rows)
   \<and> export G = (if LAST_ROWS G = [] then Redirect ''No results to export. Please calculate first.''
                 else Download (map csv_row (LAST_ROWS G)))"
proof (intro conjI impI allI)
  assume "strip (stocks_field f) = [] \<or> strip (start_date_field f) = []
      \<or> (\<exists>x. compute (parse_codes_input (strip (stocks_field f))) (strip (start_date_field f))
                (end_date_of f) = Inl x)"
  then have "snd (calculate compute G f) = G \<and> (\<exists>msg. fst (calculate compute G f) = Redirect msg)"
    by (auto simp: calculate_def Let_def end_date_of_def)
  then show "snd (calculate compute G f) = G"
    and "export (snd (calculate compute G f)) = export G"
    and "\<exists>msg. fst (calculate compute G f) = Redirect msg"
    by simp_all
next
  fix rows
  assume "strip (stocks_field f) \<noteq> [] \<and> strip (start_date_field f) \<noteq> []
         \<and> compute (parse_codes_input (strip (stocks_field f))) (strip (start_date_field f))
              (end_date_of f) = Inr rows"
  then show "LAST_ROWS (snd (calculate compute G f)) = rows"
    by (simp add: calculate_def Let_def end_date_of_def)
next
  show "export G = (if LAST_ROWS G = [] then Redirect ''No results to export. Please calculate first.''
                 else Download (map csv_row (LAST_ROWS G)))"
    by (simp add: export_def)
qed

theorem calculate_failure_keeps_last_rows_witness:
  "export (snd (calculate_app literal_provider \<lparr>LAST_ROWS = [unresolved_row ''x'']\<rparr>
       \<lparr>stocks_field = ''  '', start_date_field = ''2023-01-01'', end_date_field = []\<rparr>))
     = Download [csv_row (unresolved_row ''x'')]
   \<and> LAST_ROWS (snd (calculate_app literal_provider \<lparr>LAST_ROWS = [unresolved_row ''x'']\<rparr>
       \<lparr>stocks_field = ''nosuch'', start_date_field = ''2023-01-01'', end_date_field = []\<rparr>))
     = [unresolved_row ''nosuch'']"
proof -
  let ?G = "\<lparr>LAST_ROWS = [unresolved_row ''x'']\<rparr>"
  let ?blank = "\<lparr>stocks_field = ''  '', start_date_field = ''2023-01-01'', end_date_field = []\<rparr>"
  let ?good = "\<lparr>stocks_field = ''nosuch'', start_date_field = ''2023-01-01'', end_date_field = []\<rparr>"
  let ?cmp = "\<lambda>codes sd ed. Inr (compute_for_codes literal_provider codes sd ed)"
  have b: "strip ''  '' = []" by (simp add: strip_def is_space_def)
  have d: "strip ''2023-01-01'' = ''2023-01-01''" by (simp add: strip_def is_space_def)
  have "export (snd (calculate ?cmp ?G ?blank)) = export ?G"
    using calculate_failure_keeps_last_rows [of ?blank ?cmp ?G] by (simp add: b)
  moreover have "LAST_ROWS (snd (calculate ?cmp ?G ?good)) = [unresolved_row ''nosuch'']"
    using calculate_failure_keeps_last_rows [of ?good ?cmp ?G]
    by (simp add: strip_nosuch d parse_codes_nosuch compute_nosuch)
  ultimately show ?thesis
    by (simp add: calculate_app_def export_def)
qed

end
